theory Spec2Isabelle
  imports Main "HOL-Library.Word"
begin

unbundle bit_operations_syntax

section \<open>JavaScript strings\<close>

text \<open>
  A JavaScript string is a sequence of 16-bit code units. String literals of the source
  are ASCII; \<open>js\<close> turns an ASCII literal into code units.
\<close>

type_synonym jsstring = "16 word list"

definition js :: "string \<Rightarrow> jsstring" where
  "js s = map (\<lambda>c. word_of_nat (of_char c)) s"

text \<open>
  The white space of the regular expression class \<^verbatim>\<open>\s\<close> and of \<^verbatim>\<open>String.prototype.trim\<close>
  (the two use the same set: WhiteSpace and LineTerminator of ECMAScript).
\<close>

definition isWhiteSpace :: "16 word \<Rightarrow> bool" where
  "isWhiteSpace c \<longleftrightarrow>
     c = 0x09 \<or> c = 0x0A \<or> c = 0x0B \<or> c = 0x0C \<or> c = 0x0D \<or> c = 0x20 \<or> c = 0xA0 \<or>
     c = 0x1680 \<or> (0x2000 \<le> c \<and> c \<le> 0x200A) \<or> c = 0x2028 \<or> c = 0x2029 \<or>
     c = 0x202F \<or> c = 0x205F \<or> c = 0x3000 \<or> c = 0xFEFF"

text \<open>\<^verbatim>\<open>s.replace(/c/g, ' ')\<close> for a single code unit \<open>c\<close>.\<close>

definition replaceAllChar :: "16 word \<Rightarrow> jsstring \<Rightarrow> jsstring" where
  "replaceAllChar c s = map (\<lambda>x. if x = c then 0x20 else x) s"

text \<open>\<^verbatim>\<open>s.replace(/\s+/g, ' ')\<close>: every maximal run of white space becomes one space.\<close>

function collapseSpaces :: "jsstring \<Rightarrow> jsstring" where
  "collapseSpaces [] = []"
| "collapseSpaces (c # cs) =
     (if isWhiteSpace c then 0x20 # collapseSpaces (dropWhile isWhiteSpace cs)
      else c # collapseSpaces cs)"
  by pat_completeness auto
termination
  by (relation "measure length") (auto simp: le_imp_less_Suc length_dropWhile_le)

definition trim :: "jsstring \<Rightarrow> jsstring" where
  "trim s = rev (dropWhile isWhiteSpace (rev (dropWhile isWhiteSpace s)))"

text \<open>
  \<^verbatim>\<open>cleanText\<close> (mockService.ts, lines 5-9). The argument is \<^verbatim>\<open>string | null | undefined\<close>;
  \<open>None\<close> stands for null and for undefined, which the guard \<^verbatim>\<open>!text\<close> treats alike
  (as it does the empty string).
\<close>

definition cleanText :: "jsstring option \<Rightarrow> jsstring" where
  "cleanText text =
     (case text of
        None \<Rightarrow> []
      | Some t \<Rightarrow>
          if t = [] then []
          else trim (collapseSpaces (replaceAllChar 0x0A (replaceAllChar 0xA0 t))))"

section \<open>Decoding the obfuscated email\<close>

text \<open>\<^verbatim>\<open>s.substr(n, k)\<close> for non-negative \<open>n\<close> and \<open>k\<close>.\<close>

definition substr :: "jsstring \<Rightarrow> nat \<Rightarrow> nat \<Rightarrow> jsstring" where
  "substr s n k = take k (drop n s)"

fun startsWith :: "'a list \<Rightarrow> 'a list \<Rightarrow> bool" where
  "startsWith _ [] = True"
| "startsWith [] (_ # _) = False"
| "startsWith (x # xs) (y # ys) = (x = y \<and> startsWith xs ys)"

definition hexDigitValue :: "16 word \<Rightarrow> int option" where
  "hexDigitValue c =
     (if 0x30 \<le> c \<and> c \<le> 0x39 then Some (uint c - 0x30)
      else if 0x61 \<le> c \<and> c \<le> 0x66 then Some (uint c - 0x61 + 10)
      else if 0x41 \<le> c \<and> c \<le> 0x46 then Some (uint c - 0x41 + 10)
      else None)"

definition isHexDigit :: "16 word \<Rightarrow> bool" where
  "isHexDigit c \<longleftrightarrow> hexDigitValue c \<noteq> None"

definition hexValue :: "jsstring \<Rightarrow> int" where
  "hexValue z = foldl (\<lambda>acc d. 16 * acc + (case hexDigitValue d of Some v \<Rightarrow> v | None \<Rightarrow> 0)) 0 z"

text \<open>
  \<^verbatim>\<open>parseInt(s, 16)\<close> after ECMAScript: leading white space is skipped, one sign is read,
  a prefix \<^verbatim>\<open>0x\<close> or \<^verbatim>\<open>0X\<close> is dropped, and the longest run of hexadecimal digits is the
  number; with no digit the result is NaN, here \<open>None\<close>. The value is exact for the short
  arguments (at most two code units) that \<^verbatim>\<open>cfDecodeEmail\<close> passes.
\<close>

definition parseInt16 :: "jsstring \<Rightarrow> int option" where
  "parseInt16 s =
     (let S = dropWhile isWhiteSpace s;
          sign = (if S \<noteq> [] \<and> hd S = 0x2D then - 1 else 1);
          S1 = (if S \<noteq> [] \<and> (hd S = 0x2B \<or> hd S = 0x2D) then tl S else S);
          S2 = (if startsWith S1 (js ''0x'') \<or> startsWith S1 (js ''0X'') then drop 2 S1 else S1);
          Z = takeWhile isHexDigit S2
      in if Z = [] then None else Some (sign * hexValue Z))"

text \<open>ToInt32 of a number: NaN is 0, an integer is taken modulo \<open>2 ^ 32\<close>.\<close>

definition toInt32 :: "int option \<Rightarrow> 32 word" where
  "toInt32 x = (case x of None \<Rightarrow> 0 | Some n \<Rightarrow> word_of_int n)"

text \<open>\<^verbatim>\<open>String.fromCharCode\<close> of an int32: ToUint16 keeps the low 16 bits.\<close>

definition fromCharCode :: "32 word \<Rightarrow> 16 word" where
  "fromCharCode c = ucast c"

text \<open>
  The loop of \<^verbatim>\<open>cfDecodeEmail\<close> (mockService.ts, lines 15-18):
  \<^verbatim>\<open>for (let n = 2; n < encoded.length; n += 2) { c = parseInt(encoded.substr(n, 2), 16) ^ r; email += String.fromCharCode(c) }\<close>
\<close>

function cfDecodeLoop :: "jsstring \<Rightarrow> int option \<Rightarrow> nat \<Rightarrow> jsstring \<Rightarrow> jsstring" where
  "cfDecodeLoop encoded r n email =
     (if n < length encoded then
        cfDecodeLoop encoded r (n + 2)
          (email @ [fromCharCode (toInt32 (parseInt16 (substr encoded n 2)) XOR toInt32 r)])
      else email)"
  by pat_completeness auto
termination
  by (relation "measure (\<lambda>(encoded, r, n, email). length encoded - n)") auto

declare cfDecodeLoop.simps [simp del]

text \<open>
  \<^verbatim>\<open>cfDecodeEmail\<close> (mockService.ts, lines 11-23). No operation of the body throws on a
  string (\<^verbatim>\<open>substr\<close>, \<^verbatim>\<open>parseInt\<close>, \<^verbatim>\<open>^\<close> and \<^verbatim>\<open>String.fromCharCode\<close> are total), so the
  \<^verbatim>\<open>catch\<close> branch has no input that reaches it.
\<close>

definition cfDecodeEmail :: "jsstring \<Rightarrow> jsstring" where
  "cfDecodeEmail encoded = cfDecodeLoop encoded (parseInt16 (substr encoded 0 2)) 2 []"

section \<open>JavaScript values, exceptions and asynchronous results\<close>

text \<open>
  Values of type \<^verbatim>\<open>any\<close>. Numbers are the integers and NaN, which is all that the
  truthiness tests of the source distinguish. An object is its list of properties.
\<close>

datatype jsnum = NaN | Num int

datatype jsval =
    Undefined
  | Null
  | Bool bool
  | Number jsnum
  | String jsstring
  | Array "jsval list"
  | Object "(jsstring \<times> jsval) list"

fun truthy :: "jsval \<Rightarrow> bool" where
  "truthy Undefined = False"
| "truthy Null = False"
| "truthy (Bool b) = b"
| "truthy (Number NaN) = False"
| "truthy (Number (Num n)) = (n \<noteq> 0)"
| "truthy (String s) = (s \<noteq> [])"
| "truthy (Array _) = True"
| "truthy (Object _) = True"

text \<open>The operator \<^verbatim>\<open>a || b\<close>.\<close>

definition orElse :: "jsval \<Rightarrow> jsval \<Rightarrow> jsval" where
  "orElse a b = (if truthy a then a else b)"

text \<open>What a \<^verbatim>\<open>throw\<close> or a rejected promise carries.\<close>

datatype exn =
    TypeError jsstring
  | SyntaxError jsstring
  | URIError jsstring
  | NetworkError jsstring
  | Error jsstring
  | Thrown jsval

text \<open>
  A property read \<^verbatim>\<open>v.name\<close>: a TypeError on null and undefined, the property of an object,
  and undefined where there is none (the built-in properties of strings and arrays are
  not among the names the source reads this way).
\<close>

fun getProp :: "jsval \<Rightarrow> jsstring \<Rightarrow> exn + jsval" where
  "getProp Undefined name = Inl (TypeError (js ''Cannot read properties of undefined''))"
| "getProp Null name = Inl (TypeError (js ''Cannot read properties of null''))"
| "getProp (Object props) name = Inr (case map_of props name of Some v \<Rightarrow> v | None \<Rightarrow> Undefined)"
| "getProp _ name = Inr Undefined"

text \<open>The optional read \<^verbatim>\<open>v?.name\<close>: undefined on null and undefined, and never a TypeError.\<close>

definition optChain :: "jsval \<Rightarrow> string \<Rightarrow> jsval" where
  "optChain v name = (case getProp v (js name) of Inr x \<Rightarrow> x | Inl e \<Rightarrow> Undefined)"

text \<open>
  \<^verbatim>\<open>v.length\<close> and \<^verbatim>\<open>v[0]\<close> on a value that is not null or undefined: arrays and strings
  have them, an object may have properties of these names.
\<close>

fun lengthOf :: "jsval \<Rightarrow> jsval" where
  "lengthOf (Array xs) = Number (Num (int (length xs)))"
| "lengthOf (String s) = Number (Num (int (length s)))"
| "lengthOf (Object props) = (case map_of props (js ''length'') of Some v \<Rightarrow> v | None \<Rightarrow> Undefined)"
| "lengthOf _ = Undefined"

fun firstItem :: "jsval \<Rightarrow> jsval" where
  "firstItem (Array xs) = (case xs of [] \<Rightarrow> Undefined | x # _ \<Rightarrow> x)"
| "firstItem (String s) = (case s of [] \<Rightarrow> Undefined | c # _ \<Rightarrow> String [c])"
| "firstItem (Object props) = (case map_of props (js ''0'') of Some v \<Rightarrow> v | None \<Rightarrow> Undefined)"
| "firstItem _ = Undefined"

text \<open>
  The comparison \<^verbatim>\<open>v > 0\<close> on a value of type \<^verbatim>\<open>any\<close>. Numbers compare as they are,
  undefined is NaN, null is 0, true is 1; a string, an array or an object is first turned
  into a number by the conversions of the language, which the parameter stands for.
\<close>

fun greaterThanZero :: "(jsval \<Rightarrow> bool) \<Rightarrow> jsval \<Rightarrow> bool" where
  "greaterThanZero conv (Number (Num n)) = (n > 0)"
| "greaterThanZero conv (Number NaN) = False"
| "greaterThanZero conv Undefined = False"
| "greaterThanZero conv Null = False"
| "greaterThanZero conv (Bool b) = b"
| "greaterThanZero conv v = conv v"

text \<open>
  The value that a \<^verbatim>\<open>catch (err)\<close> receives: an exception of the language is an object
  with its message, anything else is the value thrown.
\<close>

fun thrownValue :: "exn \<Rightarrow> jsval" where
  "thrownValue (TypeError m) = Object [(js ''message'', String m)]"
| "thrownValue (SyntaxError m) = Object [(js ''message'', String m)]"
| "thrownValue (URIError m) = Object [(js ''message'', String m)]"
| "thrownValue (NetworkError m) = Object [(js ''message'', String m)]"
| "thrownValue (Error m) = Object [(js ''message'', String m)]"
| "thrownValue (Thrown v) = v"

text \<open>
  \<^verbatim>\<open>err.message\<close> of a caught exception: itself a TypeError when the value caught is null
  or undefined.
\<close>

definition message :: "exn \<Rightarrow> exn + jsval" where
  "message err = getProp (thrownValue err) (js ''message'')"

text \<open>
  The result of an \<^verbatim>\<open>async\<close> function: the value it resolves to or the exception it
  rejects with, and the requests it sent, in order.
\<close>

type_synonym ('t, 'a) io = "(exn + 'a) \<times> 't list"

definition ret :: "'a \<Rightarrow> ('t, 'a) io" where
  "ret x = (Inr x, [])"

definition throw :: "exn \<Rightarrow> ('t, 'a) io" where
  "throw e = (Inl e, [])"

definition andThen :: "('t, 'a) io \<Rightarrow> ('a \<Rightarrow> ('t, 'b) io) \<Rightarrow> ('t, 'b) io" where
  "andThen m f =
     (case m of
        (Inl e, t) \<Rightarrow> (Inl e, t)
      | (Inr x, t) \<Rightarrow> (case f x of (r, t') \<Rightarrow> (r, t @ t')))"

text \<open>\<^verbatim>\<open>try { m } catch (e) { h(e) }\<close>\<close>

definition tryCatch :: "('t, 'a) io \<Rightarrow> (exn \<Rightarrow> ('t, 'a) io) \<Rightarrow> ('t, 'a) io" where
  "tryCatch m h =
     (case m of
        (Inl e, t) \<Rightarrow> (case h e of (r, t') \<Rightarrow> (r, t @ t'))
      | (Inr x, t) \<Rightarrow> (Inr x, t))"

text \<open>A synchronous step that may throw.\<close>

definition lift :: "exn + 'a \<Rightarrow> ('t, 'a) io" where
  "lift r = (r, [])"

text \<open>\<^verbatim>\<open>hay.includes(needle)\<close> on strings.\<close>

fun includesStr :: "jsstring \<Rightarrow> jsstring \<Rightarrow> bool" where
  "includesStr [] needle = (needle = [])"
| "includesStr (x # xs) needle = (startsWith (x # xs) needle \<or> includesStr xs needle)"

text \<open>
  \<^verbatim>\<open>s.replace(pattern, '')\<close> and the like, for a string pattern: the first occurrence is
  replaced. (The replacement strings of the source have no \<^verbatim>\<open>$\<close> pattern.)
\<close>

fun replaceFirst :: "jsstring \<Rightarrow> jsstring \<Rightarrow> jsstring \<Rightarrow> jsstring" where
  "replaceFirst [] pat rep = (if pat = [] then rep else [])"
| "replaceFirst (x # xs) pat rep =
     (if startsWith (x # xs) pat then rep @ drop (length pat) (x # xs)
      else x # replaceFirst xs pat rep)"

section \<open>The DOM\<close>

text \<open>
  A parsed document is a tree of text and element nodes; an element has its tag name (lower
  case, as the HTML parser stores it), its attributes and its children. Comments carry no
  text and are no elements, so they are left out.
\<close>

datatype node =
    Text jsstring
  | Element jsstring "(jsstring \<times> jsstring) list" "node list"

type_synonym document = "node list"

text \<open>
  An element as a script holds it: the node together with its place in the tree, which is
  its ancestors (nearest first, each with the siblings that follow it) and the siblings
  that follow the node itself.
\<close>

record elem =
  above :: "(node \<times> node list) list"
  self :: node
  after :: "node list"

fun textContent :: "node \<Rightarrow> jsstring" where
  "textContent (Text t) = t"
| "textContent (Element tag attrs cs) = concat (map textContent cs)"

fun childNodes :: "node \<Rightarrow> node list" where
  "childNodes (Text t) = []"
| "childNodes (Element tag attrs cs) = cs"

text \<open>All elements among the given siblings and below them, in document order.\<close>

fun elementsIn :: "(node \<times> node list) list \<Rightarrow> node list \<Rightarrow> elem list" where
  "elementsIn anc [] = []"
| "elementsIn anc (Text t # rest) = elementsIn anc rest"
| "elementsIn anc (Element tag attrs cs # rest) =
     \<lparr>above = anc, self = Element tag attrs cs, after = rest\<rparr>
       # elementsIn ((Element tag attrs cs, rest) # anc) cs
       @ elementsIn anc rest"

definition descendants :: "elem \<Rightarrow> elem list" where
  "descendants e = elementsIn ((self e, after e) # above e) (childNodes (self e))"

fun firstElement :: "(node \<times> node list) list \<Rightarrow> node list \<Rightarrow> elem option" where
  "firstElement anc [] = None"
| "firstElement anc (Text t # rest) = firstElement anc rest"
| "firstElement anc (Element tag attrs cs # rest) =
     Some \<lparr>above = anc, self = Element tag attrs cs, after = rest\<rparr>"

definition nextElementSibling :: "elem \<Rightarrow> elem option" where
  "nextElementSibling e = firstElement (above e) (after e)"

definition parentElement :: "elem \<Rightarrow> elem option" where
  "parentElement e =
     (case above e of
        [] \<Rightarrow> None
      | (p, rest) # anc \<Rightarrow> Some \<lparr>above = anc, self = p, after = rest\<rparr>)"

fun getAttribute :: "node \<Rightarrow> jsstring \<Rightarrow> jsstring option" where
  "getAttribute (Text t) name = None"
| "getAttribute (Element tag attrs cs) name = map_of attrs name"

fun tagName :: "node \<Rightarrow> jsstring option" where
  "tagName (Text t) = None"
| "tagName (Element tag attrs cs) = Some tag"

text \<open>The class attribute split at ASCII white space.\<close>

definition isAsciiSpace :: "16 word \<Rightarrow> bool" where
  "isAsciiSpace c \<longleftrightarrow> c = 0x09 \<or> c = 0x0A \<or> c = 0x0C \<or> c = 0x0D \<or> c = 0x20"

function tokens :: "jsstring \<Rightarrow> jsstring list" where
  "tokens [] = []"
| "tokens (c # cs) =
     (if isAsciiSpace c then tokens cs
      else takeWhile (\<lambda>x. \<not> isAsciiSpace x) (c # cs)
             # tokens (dropWhile (\<lambda>x. \<not> isAsciiSpace x) cs))"
  by pat_completeness auto
termination
  by (relation "measure length") (auto simp: le_imp_less_Suc length_dropWhile_le)

definition classList :: "node \<Rightarrow> jsstring list" where
  "classList n = (case getAttribute n (js ''class'') of None \<Rightarrow> [] | Some v \<Rightarrow> tokens v)"

text \<open>
  The selectors the source uses: a tag (\<^verbatim>\<open>th\<close>), a tag with a class (\<^verbatim>\<open>tr.sumData\<close>), an
  attribute (\<^verbatim>\<open>[data-cfemail]\<close>), a tag with an attribute value (\<^verbatim>\<open>table[summary="..."]\<close>),
  a descendant (\<^verbatim>\<open>tbody tr\<close>) and a choice (\<^verbatim>\<open>th, td\<close>).
\<close>

datatype simple =
    Tag jsstring
  | TagClass jsstring jsstring
  | HasAttr jsstring
  | TagAttr jsstring jsstring jsstring

datatype selector =
    Simple simple
  | Descendant simple simple
  | Either simple simple

fun matchesSimple :: "node \<Rightarrow> simple \<Rightarrow> bool" where
  "matchesSimple n (Tag t) = (tagName n = Some t)"
| "matchesSimple n (TagClass t c) = (tagName n = Some t \<and> c \<in> set (classList n))"
| "matchesSimple n (HasAttr a) = (getAttribute n a \<noteq> None)"
| "matchesSimple n (TagAttr t a v) = (tagName n = Some t \<and> getAttribute n a = Some v)"

fun matches :: "elem \<Rightarrow> selector \<Rightarrow> bool" where
  "matches e (Simple s) = matchesSimple (self e) s"
| "matches e (Descendant a d) =
     (matchesSimple (self e) d \<and> list_ex (\<lambda>(p, rest). matchesSimple p a) (above e))"
| "matches e (Either a b) = (matchesSimple (self e) a \<or> matchesSimple (self e) b)"

text \<open>\<^verbatim>\<open>document.querySelectorAll\<close>, \<^verbatim>\<open>element.querySelectorAll\<close> and their first results.\<close>

definition docQuerySelectorAll :: "document \<Rightarrow> selector \<Rightarrow> elem list" where
  "docQuerySelectorAll doc sel = filter (\<lambda>e. matches e sel) (elementsIn [] doc)"

definition querySelectorAll :: "elem \<Rightarrow> selector \<Rightarrow> elem list" where
  "querySelectorAll e sel = filter (\<lambda>x. matches x sel) (descendants e)"

definition docQuerySelector :: "document \<Rightarrow> selector \<Rightarrow> elem option" where
  "docQuerySelector doc sel = find (\<lambda>e. matches e sel) (elementsIn [] doc)"

definition querySelector :: "elem \<Rightarrow> selector \<Rightarrow> elem option" where
  "querySelector e sel = find (\<lambda>x. matches x sel) (descendants e)"

definition getElementById :: "document \<Rightarrow> jsstring \<Rightarrow> elem option" where
  "getElementById doc i = find (\<lambda>e. getAttribute (self e) (js ''id'') = Some i) (elementsIn [] doc)"

section \<open>mockService.ts\<close>

subsection \<open>What the browser and the backend provide\<close>

text \<open>
  A response of \<^verbatim>\<open>fetch\<close>: the \<^verbatim>\<open>ok\<close> flag, the content-type header (\<open>None\<close> when the
  header is missing) and the body as text (\<open>None\<close> when reading the body fails).
\<close>

record response =
  ok :: bool
  contentType :: "jsstring option"
  body :: "jsstring option"

datatype fetch_result = Rejects | Resolves response

text \<open>The records of \<^verbatim>\<open>../types\<close>, with the fields that mockService.ts writes.\<close>

record CarrierData =
  mcNumber :: jsstring
  dotNumber :: jsstring
  legalName :: jsstring
  dbaName :: jsstring
  entityType :: jsstring
  status :: jsstring
  email :: jsstring
  phone :: jsstring
  powerUnits :: jsstring
  drivers :: jsstring
  physicalAddress :: jsstring
  mailingAddress :: jsstring
  dateScraped :: jsstring
  mcs150Date :: jsstring
  mcs150Mileage :: jsstring
  operationClassification :: "jsstring list"
  carrierOperation :: "jsstring list"
  cargoCarried :: "jsstring list"
  outOfServiceDate :: jsstring
  stateCarrierId :: jsstring
  dunsNumber :: jsstring

record BasicScore =
  category :: jsstring
  measure :: jsstring

record OosRate =
  oosType :: jsstring
  rate :: jsstring
  nationalAvg :: jsstring

record SafetyData =
  rating :: jsstring
  ratingDate :: jsstring
  basicScores :: "BasicScore list"
  oosRates :: "OosRate list"

text \<open>
  The environment of mockService.ts: the network (\<^verbatim>\<open>fetch\<close>, one outcome for each URL),
  the built-ins \<^verbatim>\<open>JSON.parse\<close> (\<open>None\<close>: SyntaxError), \<^verbatim>\<open>encodeURIComponent\<close> (\<open>None\<close>:
  URIError), \<^verbatim>\<open>DOMParser.parseFromString\<close> for text/html (which never throws), \<^verbatim>\<open>innerText\<close>
  (it depends on rendering), today's date as \<^verbatim>\<open>toLocaleDateString('en-US')\<close> prints it, and
  the two functions of backendService.ts, whose source is not part of the repository
  files at hand: each resolves to a result, to nothing (\<open>None\<close>: null), or throws.
\<close>

record env =
  fetch :: "jsstring \<Rightarrow> fetch_result"
  JSON_parse :: "jsstring \<Rightarrow> jsval option"
  encodeURIComponent :: "jsstring \<Rightarrow> jsstring option"
  parseFromString :: "jsstring \<Rightarrow> document"
  innerText :: "elem \<Rightarrow> jsstring"
  toLocaleDateString :: jsstring
  fetchCarrierFromBackend :: "jsstring \<Rightarrow> exn + CarrierData option"
  fetchSafetyFromBackend :: "jsstring \<Rightarrow> exn + SafetyData option"

text \<open>\<^verbatim>\<open>await fetch(url)\<close>: the request is sent; the promise resolves or rejects.\<close>

definition doFetch :: "env \<Rightarrow> jsstring \<Rightarrow> (jsstring, response) io" where
  "doFetch env url =
     (case fetch env url of
        Rejects \<Rightarrow> (Inl (NetworkError (js ''Failed to fetch'')), [url])
      | Resolves r \<Rightarrow> (Inr r, [url]))"

definition responseText :: "response \<Rightarrow> (jsstring, jsstring) io" where
  "responseText r =
     (case body r of
        None \<Rightarrow> throw (TypeError (js ''Failed to read the body''))
      | Some t \<Rightarrow> ret t)"

definition responseJson :: "env \<Rightarrow> response \<Rightarrow> (jsstring, jsval) io" where
  "responseJson env r =
     andThen (responseText r) (\<lambda>t.
       case JSON_parse env t of
         None \<Rightarrow> throw (SyntaxError (js ''Unexpected token''))
       | Some v \<Rightarrow> ret v)"

subsection \<open>findValueByLabel (lines 25-38)\<close>

definition findValueByLabel :: "env \<Rightarrow> document \<Rightarrow> jsstring \<Rightarrow> jsstring" where
  "findValueByLabel env doc label =
     (let ths = docQuerySelectorAll doc (Simple (Tag (js ''th'')));
          targetTh = find (\<lambda>th. includesStr (cleanText (Some (textContent (self th)))) label) ths
      in case targetTh of
           None \<Rightarrow> []
         | Some th \<Rightarrow>
             (case nextElementSibling th of
                None \<Rightarrow> []
              | Some nextTd \<Rightarrow>
                  (let val = (if innerText env nextTd \<noteq> [] then innerText env nextTd
                              else textContent (self nextTd))
                   in cleanText (Some val))))"

subsection \<open>fetchUrl (lines 42-72)\<close>

text \<open>
  The two proxy URLs. \<^verbatim>\<open>encodeURIComponent\<close> runs inside the \<^verbatim>\<open>try\<close> of the loop, so its
  URIError is caught there.
\<close>

definition proxyGenerators :: "env \<Rightarrow> (jsstring \<Rightarrow> exn + jsstring) list" where
  "proxyGenerators env =
     [\<lambda>url. case encodeURIComponent env url of
              None \<Rightarrow> Inl (URIError (js ''URI malformed''))
            | Some u \<Rightarrow> Inr (js ''https://api.allorigins.win/raw?url='' @ u),
      \<lambda>url. case encodeURIComponent env url of
              None \<Rightarrow> Inl (URIError (js ''URI malformed''))
            | Some u \<Rightarrow> Inr (js ''https://api.codetabs.com/v1/proxy?quest='' @ u)]"

text \<open>
  The loop over the proxies (lines 58-70). The body of the \<^verbatim>\<open>try\<close> gives \<open>Some v\<close> when
  it returns \<open>v\<close> from the function and \<open>None\<close> when control falls through to the next
  round; the empty \<^verbatim>\<open>catch\<close> falls through as well. After the loop the function returns
  null.
\<close>

fun proxyLoop :: "env \<Rightarrow> (jsstring \<Rightarrow> exn + jsstring) list \<Rightarrow> jsstring \<Rightarrow> (jsstring, jsval) io" where
  "proxyLoop env [] targetUrl = ret Null"
| "proxyLoop env (generateProxyUrl # rest) targetUrl =
     andThen
       (tryCatch
          (andThen (lift (generateProxyUrl targetUrl)) (\<lambda>proxyUrl.
           andThen (doFetch env proxyUrl) (\<lambda>response.
             if ok response then
               andThen (responseText response) (\<lambda>text.
                 ret (Some (case JSON_parse env text of Some v \<Rightarrow> v | None \<Rightarrow> String text)))
             else ret None)))
          (\<lambda>error. ret None))
       (\<lambda>returned. case returned of Some v \<Rightarrow> ret v | None \<Rightarrow> proxyLoop env rest targetUrl)"

declare proxyLoop.simps [simp del]

text \<open>
  The direct request (lines 43-51) comes first when \<^verbatim>\<open>useProxy\<close> is false: an ok response is
  returned as JSON or text, a response that is not ok falls through to the proxies, and
  the \<^verbatim>\<open>catch\<close> returns null from the function.
\<close>

definition fetchUrl :: "env \<Rightarrow> jsstring \<Rightarrow> bool \<Rightarrow> (jsstring, jsval) io" where
  "fetchUrl env targetUrl useProxy =
     andThen
       (if \<not> useProxy then
          tryCatch
            (andThen (doFetch env targetUrl) (\<lambda>response.
               if ok response then
                 (if (case contentType response of
                        None \<Rightarrow> False
                      | Some ct \<Rightarrow> includesStr ct (js ''application/json''))
                  then andThen (responseJson env response) (\<lambda>v. ret (Some v))
                  else andThen (responseText response) (\<lambda>t. ret (Some (String t))))
               else ret None))
            (\<lambda>error. ret (Some Null))
        else ret None)
       (\<lambda>returned. case returned of
          Some v \<Rightarrow> ret v
        | None \<Rightarrow> proxyLoop env (proxyGenerators env) targetUrl)"

subsection \<open>fetchSafetyData (lines 76-138)\<close>

definition categories :: "jsstring list" where
  "categories =
     [js ''Unsafe Driving'', js ''Crash Indicator'', js ''HOS Compliance'',
      js ''Vehicle Maintenance'', js ''Controlled Substances'', js ''Hazmat Compliance'',
      js ''Driver Fitness'']"

text \<open>The part of \<^verbatim>\<open>fetchSafetyData\<close> after the document is parsed (lines 97-137).\<close>

definition safetyFromDocument :: "document \<Rightarrow> SafetyData" where
  "safetyFromDocument doc =
     \<lparr>rating =
        (case getElementById doc (js ''Rating'') of
           Some ratingEl \<Rightarrow> cleanText (Some (textContent (self ratingEl)))
         | None \<Rightarrow> js ''N/A''),
      ratingDate =
        (case getElementById doc (js ''RatingDate'') of
           Some ratingDateEl \<Rightarrow>
             replaceFirst
               (replaceFirst
                  (replaceFirst (cleanText (Some (textContent (self ratingDateEl))))
                     (js ''Rating Date:'') [])
                  (js ''('') [])
               (js '')'') []
         | None \<Rightarrow> js ''N/A''),
      basicScores =
        (case docQuerySelector doc (Simple (TagClass (js ''tr'') (js ''sumData''))) of
           None \<Rightarrow> []
         | Some sumDataRow \<Rightarrow>
             concat (map (\<lambda>(i, cell).
                 let val = (case querySelector cell (Simple (TagClass (js ''span'') (js ''val''))) of
                              Some valSpan \<Rightarrow> cleanText (Some (textContent (self valSpan)))
                            | None \<Rightarrow> cleanText (Some (textContent (self cell))))
                 in if i < length categories
                    then [\<lparr>category = categories ! i,
                           measure = (if val \<noteq> [] then val else js ''0.00'')\<rparr>]
                    else [])
               (enumerate 0 (querySelectorAll sumDataRow (Simple (Tag (js ''td''))))))),
      oosRates =
        (case getElementById doc (js ''SafetyRating'') of
           None \<Rightarrow> []
         | Some safetyDiv \<Rightarrow>
             (case querySelector safetyDiv (Simple (Tag (js ''table''))) of
                None \<Rightarrow> []
              | Some oosTable \<Rightarrow>
                  concat (map (\<lambda>row.
                      let cols = querySelectorAll row (Either (Tag (js ''th'')) (Tag (js ''td'')))
                      in if length cols \<ge> 3
                         then [\<lparr>oosType = cleanText (Some (textContent (self (cols ! 0)))),
                                rate = cleanText (Some (textContent (self (cols ! 1)))),
                                nationalAvg = cleanText (Some (textContent (self (cols ! 2))))\<rparr>]
                         else [])
                    (querySelectorAll oosTable (Descendant (Tag (js ''tbody'')) (Tag (js ''tr'')))))))\<rparr>"

definition fetchSafetyData :: "env \<Rightarrow> jsstring \<Rightarrow> (jsstring, SafetyData) io" where
  "fetchSafetyData env dot =
     andThen (lift (fetchSafetyFromBackend env dot)) (\<lambda>backendResult.
       case backendResult of
         Some r \<Rightarrow> ret r
       | None \<Rightarrow>
           (let url = js ''https://ai.fmcsa.dot.gov/SMS/Carrier/'' @ dot @ js ''/CompleteProfile.aspx''
            in andThen (fetchUrl env url True) (\<lambda>html.
                 case html of
                   String h \<Rightarrow> ret (safetyFromDocument (parseFromString env h))
                 | _ \<Rightarrow> throw (Error (js ''Could not fetch safety data'')))))"

subsection \<open>fetchCarrierEmailFromSMS (lines 140-161)\<close>

text \<open>The loop over the labels (lines 149-159), with its two early returns.\<close>

fun emailFromLabels :: "elem list \<Rightarrow> jsstring" where
  "emailFromLabels [] = []"
| "emailFromLabels (l # ls) =
     (if includesStr (textContent (self l)) (js ''Email:'') then
        (case parentElement l of
           None \<Rightarrow> emailFromLabels ls
         | Some parent \<Rightarrow>
             (case querySelector parent (Simple (HasAttr (js ''data-cfemail''))) of
                Some cfEmail \<Rightarrow>
                  cfDecodeEmail (case getAttribute (self cfEmail) (js ''data-cfemail'') of
                                   Some v \<Rightarrow> v | None \<Rightarrow> [])
              | None \<Rightarrow>
                  (let text = cleanText (Some (replaceFirst (textContent (self parent)) (js ''Email:'') []))
                   in if text \<noteq> [] \<and> includesStr text (js ''@'') then text
                      else emailFromLabels ls)))
      else emailFromLabels ls)"

definition fetchCarrierEmailFromSMS :: "env \<Rightarrow> jsstring \<Rightarrow> bool \<Rightarrow> (jsstring, jsstring) io" where
  "fetchCarrierEmailFromSMS env dotNum useProxy =
     (if dotNum = [] \<or> dotNum = js ''UNKNOWN'' then ret []
      else
        (let smsUrl = js ''https://ai.fmcsa.dot.gov/SMS/Carrier/'' @ dotNum @ js ''/CarrierRegistration.aspx''
         in andThen (fetchUrl env smsUrl useProxy) (\<lambda>result.
              case result of
                String r \<Rightarrow>
                  ret (emailFromLabels
                         (docQuerySelectorAll (parseFromString env r) (Simple (Tag (js ''label'')))))
              | _ \<Rightarrow> ret [])))"

subsection \<open>scrapeRealCarrier (lines 163-223)\<close>

definition findMarked :: "document \<Rightarrow> jsstring \<Rightarrow> jsstring list" where
  "findMarked doc summary =
     (case docQuerySelector doc (Simple (TagAttr (js ''table'') (js ''summary'') summary)) of
        None \<Rightarrow> []
      | Some tbl \<Rightarrow>
          concat (map (\<lambda>cell.
              if trim (textContent (self cell)) = js ''X'' then
                (case nextElementSibling cell of
                   Some next \<Rightarrow> [cleanText (Some (textContent (self next)))]
                 | None \<Rightarrow> [])
              else [])
            (querySelectorAll tbl (Simple (Tag (js ''td''))))))"

text \<open>The object literal of lines 194-216.\<close>

definition carrierFromDocument :: "env \<Rightarrow> document \<Rightarrow> jsstring \<Rightarrow> CarrierData" where
  "carrierFromDocument env doc mc =
     \<lparr>mcNumber = mc,
      dotNumber = findValueByLabel env doc (js ''USDOT Number:''),
      legalName = findValueByLabel env doc (js ''Legal Name:''),
      dbaName = findValueByLabel env doc (js ''DBA Name:''),
      entityType = findValueByLabel env doc (js ''Entity Type:''),
      status = findValueByLabel env doc (js ''Operating Authority Status:''),
      email = [],
      phone = findValueByLabel env doc (js ''Phone:''),
      powerUnits = findValueByLabel env doc (js ''Power Units:''),
      drivers = findValueByLabel env doc (js ''Drivers:''),
      physicalAddress = findValueByLabel env doc (js ''Physical Address:''),
      mailingAddress = findValueByLabel env doc (js ''Mailing Address:''),
      dateScraped = toLocaleDateString env,
      mcs150Date = findValueByLabel env doc (js ''MCS-150 Form Date:''),
      mcs150Mileage = findValueByLabel env doc (js ''MCS-150 Mileage (Year):''),
      operationClassification = findMarked doc (js ''Operation Classification''),
      carrierOperation = findMarked doc (js ''Carrier Operation''),
      cargoCarried = findMarked doc (js ''Cargo Carried''),
      outOfServiceDate = findValueByLabel env doc (js ''Out of Service Date:''),
      stateCarrierId = findValueByLabel env doc (js ''State Carrier ID Number:''),
      dunsNumber = findValueByLabel env doc (js ''DUNS Number:'')\<rparr>"

definition carrierSnapshotUrl :: "jsstring \<Rightarrow> jsstring" where
  "carrierSnapshotUrl mc =
     js ''https://safer.fmcsa.dot.gov/query.asp?searchtype=ANY&query_type=queryCarrierSnapshot&query_param=MC_MX&query_string='' @ mc"

definition scrapeRealCarrier :: "env \<Rightarrow> jsstring \<Rightarrow> bool \<Rightarrow> (jsstring, CarrierData option) io" where
  "scrapeRealCarrier env mc useProxy =
     andThen (lift (fetchCarrierFromBackend env mc)) (\<lambda>backendResult.
       case backendResult of
         Some r \<Rightarrow> ret (Some r)
       | None \<Rightarrow>
           andThen (fetchUrl env (carrierSnapshotUrl mc) useProxy) (\<lambda>html.
             case html of
               String h \<Rightarrow>
                 (let doc = parseFromString env h
                  in if docQuerySelector doc (Simple (Tag (js ''center''))) = None then ret None
                     else
                       (let carrier = carrierFromDocument env doc mc
                        in if dotNumber carrier \<noteq> [] then
                             andThen (fetchCarrierEmailFromSMS env (dotNumber carrier) useProxy)
                               (\<lambda>e. ret (Some (carrier\<lparr>email := e\<rparr>)))
                           else ret (Some carrier)))
             | _ \<Rightarrow> ret None))"

subsection \<open>Sample records\<close>

text \<open>A carrier and a safety record, as the backend may hold them.\<close>

definition sampleCarrier :: CarrierData where
  "sampleCarrier =
     \<lparr>mcNumber = js ''123456'', dotNumber = js ''7654321'', legalName = js ''ACME TRUCKING LLC'',
      dbaName = [], entityType = js ''CARRIER'', status = js ''AUTHORIZED FOR Property'',
      email = js ''ops@acme.example'', phone = js ''(555) 010-0000'', powerUnits = js ''12'',
      drivers = js ''14'', physicalAddress = js ''1 MAIN ST SPRINGFIELD, IL 62701'',
      mailingAddress = js ''1 MAIN ST SPRINGFIELD, IL 62701'', dateScraped = js ''1/2/2026'',
      mcs150Date = js ''03/01/2025'', mcs150Mileage = js ''100,000 (2024)'',
      operationClassification = [js ''Auth. For Hire''], carrierOperation = [js ''Interstate''],
      cargoCarried = [js ''General Freight''], outOfServiceDate = js ''None'',
      stateCarrierId = [], dunsNumber = js ''--''\<rparr>"

definition sampleSafety :: SafetyData where
  "sampleSafety =
     \<lparr>rating = js ''Satisfactory'', ratingDate = js ''01/15/2024'',
      basicScores = [\<lparr>category = js ''Unsafe Driving'', measure = js ''0.52''\<rparr>],
      oosRates = [\<lparr>oosType = js ''Vehicle'', rate = js ''10.0%'', nationalAvg = js ''22.3%''\<rparr>]\<rparr>"

section \<open>supabaseClient.ts\<close>

subsection \<open>The query builder and the service\<close>

text \<open>
  A query is the list of the builder calls that made it, in order. Awaiting it sends it
  to the service, which answers with \<^verbatim>\<open>{ data, error }\<close> or rejects.
\<close>

datatype qop =
    From jsstring
  | Select jsstring
  | Ilike jsstring jsstring
  | Not jsstring jsstring jsval
  | Or jsstring
  | Is jsstring jsval
  | Order jsstring bool
  | Limit jsnum
  | Upsert jsval jsstring

type_synonym query = "qop list"

datatype query_result = QRejects exn | QResolves jsval jsval

type_synonym supabase = "query \<Rightarrow> query_result"

definition runQuery :: "supabase \<Rightarrow> query \<Rightarrow> (query, jsval \<times> jsval) io" where
  "runQuery sb q =
     (case sb q of
        QRejects e \<Rightarrow> (Inl e, [q])
      | QResolves d e \<Rightarrow> (Inr (d, e), [q]))"

text \<open>A property read on a value known not to be null or undefined.\<close>

definition readProp :: "jsval \<Rightarrow> string \<Rightarrow> jsval" where
  "readProp v name = (case getProp v (js name) of Inr x \<Rightarrow> x | Inl e \<Rightarrow> Undefined)"

fun mapE :: "('a \<Rightarrow> exn + 'b) \<Rightarrow> 'a list \<Rightarrow> exn + 'b list" where
  "mapE f [] = Inr []"
| "mapE f (x # xs) =
     (case f x of
        Inl e \<Rightarrow> Inl e
      | Inr y \<Rightarrow> (case mapE f xs of Inl e \<Rightarrow> Inl e | Inr ys \<Rightarrow> Inr (y # ys)))"

subsection \<open>saveCarrierToSupabase (lines 46-93)\<close>

text \<open>
  The object literal of lines 48-76. Its first property read throws a TypeError when
  \<^verbatim>\<open>carrier\<close> is null or undefined; after it no other read can throw.
\<close>

definition carrierRecord :: "jsval \<Rightarrow> exn + jsval" where
  "carrierRecord carrier =
     (case getProp carrier (js ''mcNumber'') of
        Inl e \<Rightarrow> Inl e
      | Inr mc \<Rightarrow>
          Inr (Object
            [(js ''mc_number'', mc),
             (js ''dot_number'', readProp carrier ''dotNumber''),
             (js ''legal_name'', readProp carrier ''legalName''),
             (js ''dba_name'', orElse (readProp carrier ''dbaName'') Null),
             (js ''entity_type'', readProp carrier ''entityType''),
             (js ''status'', readProp carrier ''status''),
             (js ''email'', orElse (readProp carrier ''email'') Null),
             (js ''phone'', orElse (readProp carrier ''phone'') Null),
             (js ''power_units'', orElse (readProp carrier ''powerUnits'') Null),
             (js ''drivers'', orElse (readProp carrier ''drivers'') Null),
             (js ''non_cmv_units'', orElse (readProp carrier ''nonCmvUnits'') Null),
             (js ''physical_address'', orElse (readProp carrier ''physicalAddress'') Null),
             (js ''mailing_address'', orElse (readProp carrier ''mailingAddress'') Null),
             (js ''date_scraped'', readProp carrier ''dateScraped''),
             (js ''mcs150_date'', orElse (readProp carrier ''mcs150Date'') Null),
             (js ''mcs150_mileage'', orElse (readProp carrier ''mcs150Mileage'') Null),
             (js ''operation_classification'', orElse (readProp carrier ''operationClassification'') (Array [])),
             (js ''carrier_operation'', orElse (readProp carrier ''carrierOperation'') (Array [])),
             (js ''cargo_carried'', orElse (readProp carrier ''cargoCarried'') (Array [])),
             (js ''out_of_service_date'', orElse (readProp carrier ''outOfServiceDate'') Null),
             (js ''state_carrier_id'', orElse (readProp carrier ''stateCarrierId'') Null),
             (js ''duns_number'', orElse (readProp carrier ''dunsNumber'') Null),
             (js ''safety_rating'', orElse (readProp carrier ''safetyRating'') Null),
             (js ''safety_rating_date'', orElse (readProp carrier ''safetyRatingDate'') Null),
             (js ''basic_scores'', orElse (readProp carrier ''basicScores'') Null),
             (js ''oos_rates'', orElse (readProp carrier ''oosRates'') Null),
             (js ''insurance_policies'', orElse (readProp carrier ''insurancePolicies'') Null)]))"

record SaveResult =
  success :: bool
  error :: "jsval option"

definition saveCarrierToSupabase :: "supabase \<Rightarrow> jsval \<Rightarrow> (query, SaveResult) io" where
  "saveCarrierToSupabase sb carrier =
     tryCatch
       (andThen (lift (carrierRecord carrier)) (\<lambda>record.
        andThen (runQuery sb [From (js ''carriers''), Upsert record (js ''mc_number'')]) (\<lambda>(d, e).
          if truthy e then
            andThen (lift (getProp e (js ''message''))) (\<lambda>m. ret \<lparr>success = False, error = Some m\<rparr>)
          else ret \<lparr>success = True, error = None\<rparr>)))
       (\<lambda>err. andThen (lift (message err)) (\<lambda>m. ret \<lparr>success = False, error = Some m\<rparr>))"

subsection \<open>fetchCarriersFromSupabase (lines 109-190)\<close>

text \<open>\<^verbatim>\<open>CarrierFilters\<close> (lines 95-107): every field is optional.\<close>

record CarrierFilters =
  mcNumber :: "jsstring option"
  dotNumber :: "jsstring option"
  legalName :: "jsstring option"
  active :: "jsstring option"
  state :: "jsstring option"
  hasEmail :: "jsstring option"
  powerUnitsMin :: "jsnum option"
  powerUnitsMax :: "jsnum option"
  driversMin :: "jsnum option"
  driversMax :: "jsnum option"
  limit :: "jsnum option"

text \<open>The guard \<^verbatim>\<open>if (filters.x)\<close> on an optional string and on an optional number.\<close>

definition given :: "jsstring option \<Rightarrow> bool" where
  "given x = (case x of None \<Rightarrow> False | Some s \<Rightarrow> truthy (String s))"

definition givenNumber :: "jsnum option \<Rightarrow> bool" where
  "givenNumber x = (case x of None \<Rightarrow> False | Some n \<Rightarrow> truthy (Number n))"

definition like :: "jsstring option \<Rightarrow> jsstring" where
  "like x = js ''%'' @ (case x of Some s \<Rightarrow> s | None \<Rightarrow> []) @ js ''%''"

text \<open>The query that lines 111-147 build.\<close>

definition carriersQuery :: "CarrierFilters \<Rightarrow> query" where
  "carriersQuery filters =
     [From (js ''carriers''), Select (js ''*'')]
     @ (if given (mcNumber filters) then [Ilike (js ''mc_number'') (like (mcNumber filters))] else [])
     @ (if given (dotNumber filters) then [Ilike (js ''dot_number'') (like (dotNumber filters))] else [])
     @ (if given (legalName filters) then [Ilike (js ''legal_name'') (like (legalName filters))] else [])
     @ (if active filters = Some (js ''true'')
        then [Ilike (js ''status'') (js ''%AUTHORIZED%''),
              Not (js ''status'') (js ''ilike'') (String (js ''%NOT%''))]
        else if active filters = Some (js ''false'')
        then [Or (js ''status.ilike.%NOT%,status.not.ilike.%AUTHORIZED%'')]
        else [])
     @ (if given (state filters) then [Ilike (js ''physical_address'') (like (state filters))] else [])
     @ (if hasEmail filters = Some (js ''true'') then [Not (js ''email'') (js ''is'') Null]
        else if hasEmail filters = Some (js ''false'') then [Is (js ''email'') Null]
        else [])
     @ [Order (js ''created_at'') False]
     @ (if givenNumber (limit filters)
        then [Limit (case limit filters of Some n \<Rightarrow> n | None \<Rightarrow> NaN)]
        else [Limit (Num 200)])"

text \<open>The object literal of lines 157-185, for one row of the answer.\<close>

definition carrierFromRecord :: "jsval \<Rightarrow> exn + jsval" where
  "carrierFromRecord record =
     (case getProp record (js ''mc_number'') of
        Inl e \<Rightarrow> Inl e
      | Inr mc \<Rightarrow>
          Inr (Object
            [(js ''mcNumber'', mc),
             (js ''dotNumber'', readProp record ''dot_number''),
             (js ''legalName'', readProp record ''legal_name''),
             (js ''dbaName'', readProp record ''dba_name''),
             (js ''entityType'', readProp record ''entity_type''),
             (js ''status'', readProp record ''status''),
             (js ''email'', readProp record ''email''),
             (js ''phone'', readProp record ''phone''),
             (js ''powerUnits'', readProp record ''power_units''),
             (js ''drivers'', readProp record ''drivers''),
             (js ''nonCmvUnits'', readProp record ''non_cmv_units''),
             (js ''physicalAddress'', readProp record ''physical_address''),
             (js ''mailingAddress'', readProp record ''mailing_address''),
             (js ''dateScraped'', readProp record ''date_scraped''),
             (js ''mcs150Date'', readProp record ''mcs150_date''),
             (js ''mcs150Mileage'', readProp record ''mcs150_mileage''),
             (js ''operationClassification'', orElse (readProp record ''operation_classification'') (Array [])),
             (js ''carrierOperation'', orElse (readProp record ''carrier_operation'') (Array [])),
             (js ''cargoCarried'', orElse (readProp record ''cargo_carried'') (Array [])),
             (js ''outOfServiceDate'', readProp record ''out_of_service_date''),
             (js ''stateCarrierId'', readProp record ''state_carrier_id''),
             (js ''dunsNumber'', readProp record ''duns_number''),
             (js ''safetyRating'', readProp record ''safety_rating''),
             (js ''safetyRatingDate'', readProp record ''safety_rating_date''),
             (js ''basicScores'', readProp record ''basic_scores''),
             (js ''oosRates'', readProp record ''oos_rates''),
             (js ''insurancePolicies'', readProp record ''insurance_policies'')]))"

text \<open>
  \<^verbatim>\<open>rows.map(f)\<close> on a value of type \<^verbatim>\<open>any\<close>: only an array has \<^verbatim>\<open>map\<close>; on any other
  value the call is a TypeError.
\<close>

definition mapRows :: "(jsval \<Rightarrow> exn + 'b) \<Rightarrow> jsval \<Rightarrow> exn + 'b list" where
  "mapRows f v =
     (case v of
        Array rows \<Rightarrow> mapE f rows
      | _ \<Rightarrow> Inl (TypeError (js ''map is not a function'')))"

definition fetchCarriersFromSupabase :: "supabase \<Rightarrow> CarrierFilters \<Rightarrow> (query, jsval list) io" where
  "fetchCarriersFromSupabase sb filters =
     tryCatch
       (andThen (runQuery sb (carriersQuery filters)) (\<lambda>(d, e).
          if truthy e then ret []
          else lift (mapRows carrierFromRecord (orElse d (Array [])))))
       (\<lambda>err. ret [])"

section \<open>FMCSARegister.tsx\<close>

text \<open>An entry of the register table, and the state of the component that the fetch sets.\<close>

record FMCSARegisterEntry =
  number :: jsval
  title :: jsval
  decided :: jsstring
  category :: jsval

record RegisterState =
  registerData :: "FMCSARegisterEntry list"
  isLoading :: bool
  lastUpdated :: jsstring
  errorBanner :: jsstring

text \<open>
  What the browser provides to \<^verbatim>\<open>fetchRegisterData\<close>: the service, the date of a row as
  \<^verbatim>\<open>new Date(x).toLocaleDateString()\<close> prints it, the current time as \<^verbatim>\<open>toLocaleString()\<close>
  prints it, the conversion of a value to a string inside a template literal, and the
  conversion behind \<^verbatim>\<open>v > 0\<close> for a value that is no number.
\<close>

record renv =
  supabaseClient :: supabase
  dateString :: "jsval \<Rightarrow> jsstring"
  nowString :: jsstring
  toStringJS :: "jsval \<Rightarrow> jsstring"
  convGreaterThanZero :: "jsval \<Rightarrow> bool"

definition mockData :: "FMCSARegisterEntry list" where
  "mockData =
     [\<lparr>number = String (js ''FF-40152''),
       title = String (js ''PFL TRANSPORTATION SOLUTIONS INC - SURREY, BC''),
       decided = js ''02/20/2026'',
       category = String (js ''NAME CHANGE'')\<rparr>,
      \<lparr>number = String (js ''MC-19745''),
       title = String (js ''MACON SIX TRANSPORT LLC - LANSING, IL''),
       decided = js ''02/20/2026'',
       category = String (js ''GRANT DECISION NOTICES'')\<rparr>]"

text \<open>\<^verbatim>\<open>loadMockData\<close> (lines 78-85).\<close>

definition loadMockData :: "renv \<Rightarrow> RegisterState \<Rightarrow> RegisterState" where
  "loadMockData env st = st\<lparr>registerData := mockData, lastUpdated := nowString env\<rparr>"

text \<open>The arrow function of lines 57-62.\<close>

definition entryFromItem :: "renv \<Rightarrow> jsval \<Rightarrow> exn + FMCSARegisterEntry" where
  "entryFromItem env item =
     (case getProp item (js ''docket_number'') of
        Inl e \<Rightarrow> Inl e
      | Inr docket \<Rightarrow>
          Inr \<lparr>number = docket,
               title = readProp item ''carrier_name'',
               decided = dateString env (readProp item ''published_date''),
               category = orElse (readProp item ''category'') (String (js ''GRANT DECISION NOTICES''))\<rparr>)"

text \<open>The test \<^verbatim>\<open>data && data.length > 0\<close> on a value of type \<^verbatim>\<open>any\<close>.\<close>

definition hasEntries :: "renv \<Rightarrow> jsval \<Rightarrow> bool" where
  "hasEntries env d = (truthy d \<and> greaterThanZero (convGreaterThanZero env) (lengthOf d))"

text \<open>
  \<^verbatim>\<open>fetchRegisterData\<close> (lines 41-76): the state after the call, and the queries sent.
  The \<^verbatim>\<open>finally\<close> block runs on both paths; when the \<^verbatim>\<open>catch\<close> block itself throws, the
  call rejects.
\<close>

definition fetchRegisterData :: "renv \<Rightarrow> RegisterState \<Rightarrow> (query, RegisterState) io" where
  "fetchRegisterData env st0 =
     (let st = st0\<lparr>isLoading := True, errorBanner := []\<rparr>
      in andThen
           (tryCatch
              (andThen
                 (runQuery (supabaseClient env)
                    [From (js ''fmcsa_register''), Select (js ''*''),
                     Order (js ''published_date'') False, Limit (Num 2000)])
                 (\<lambda>(d, sbError).
                    if truthy sbError then throw (Thrown sbError)
                    else if hasEntries env d then
                      andThen (lift (mapRows (entryFromItem env) d)) (\<lambda>mappedData.
                        ret (st\<lparr>registerData := mappedData, lastUpdated := nowString env\<rparr>))
                    else throw (Error (js ''No entries found in Supabase.''))))
              (\<lambda>err.
                 andThen (lift (message err)) (\<lambda>m.
                   ret (loadMockData env
                     (st\<lparr>errorBanner :=
                          js ''Database Error: ''
                          @ toStringJS env (orElse m (String (js ''Check connection'')))
                          @ js ''. Showing mock data.''\<rparr>)))))
           (\<lambda>st'. ret (st'\<lparr>isLoading := False\<rparr>)))"

section \<open>The register page with its own API client\<close>

text \<open>
  The second register component (\<^verbatim>\<open>FmcsaRegister\<close>, the default export that calls
  \<^verbatim>\<open>client.apiCall.invoke\<close>). A request is its URL, its method and its data; the client
  answers with a response or rejects.
\<close>

datatype request = Request jsstring jsstring jsval

datatype api_result = ARejects exn | AResolves jsval

text \<open>
  The state of the component, with the messages shown (\<^verbatim>\<open>toast.error\<close> and the like, each
  with its kind) as its last field. The state variables \<^verbatim>\<open>categories\<close> and \<^verbatim>\<open>isLoading\<close>
  are \<open>pageCategories\<close> and \<open>pageIsLoading\<close> here. What the server sends is stored as it
  comes, so these fields hold values of type \<^verbatim>\<open>any\<close>.
\<close>

record PageState =
  records :: jsval
  totalRecords :: jsval
  pageCategories :: jsval
  availableDates :: jsval
  storedDates :: jsval
  selectedDate :: jsval
  selectedCategory :: jsstring
  searchQuery :: jsstring
  pageIsLoading :: bool
  isScraping :: bool
  isLoadingDates :: bool
  toasts :: "(jsstring \<times> jsval) list"

record penv =
  apiCall :: "request \<Rightarrow> api_result"
  pageConvGreaterThanZero :: "jsval \<Rightarrow> bool"

definition invoke :: "penv \<Rightarrow> request \<Rightarrow> (request, jsval) io" where
  "invoke env req =
     (case apiCall env req of
        ARejects e \<Rightarrow> (Inl e, [req])
      | AResolves r \<Rightarrow> (Inr r, [req]))"

definition toast :: "string \<Rightarrow> jsval \<Rightarrow> PageState \<Rightarrow> PageState" where
  "toast kind msg st = st\<lparr>toasts := toasts st @ [(js kind, msg)]\<rparr>"

text \<open>\<^verbatim>\<open>response.data?.dates || []\<close>: the first read throws when the response is null.\<close>

definition datesOf :: "jsval \<Rightarrow> exn + jsval" where
  "datesOf response =
     (case getProp response (js ''data'') of
        Inl e \<Rightarrow> Inl e
      | Inr d \<Rightarrow> Inr (orElse (optChain d ''dates'') (Array [])))"

definition storedDatesRequest :: request where
  "storedDatesRequest = Request (js ''/api/v1/fmcsa/stored-dates'') (js ''GET'') (Object [])"

text \<open>
  \<^verbatim>\<open>fetchAvailableDates\<close> (lines 70-100). The functions of the component read the state
  variables of the render that made them (\<open>snap\<close>) and write through the setters (\<open>st\<close>).
  What the \<^verbatim>\<open>try\<close> block has set before it throws stays set, so the block is cut where
  it sets state, and the handler of the \<^verbatim>\<open>catch\<close> runs on the state reached.
\<close>

definition fetchAvailableDates :: "penv \<Rightarrow> PageState \<Rightarrow> PageState \<Rightarrow> (request, PageState) io" where
  "fetchAvailableDates env snap st0 =
     (let st = st0\<lparr>isLoadingDates := True\<rparr>;
          failed = (\<lambda>s. toast ''error'' (String (js ''Failed to fetch available dates'')) s)
      in andThen
           (andThen
              (tryCatch
                 (andThen (invoke env (Request (js ''/api/v1/fmcsa/dates'') (js ''GET'') (Object [])))
                    (\<lambda>response. andThen (lift (datesOf response)) (\<lambda>dates. ret (Some dates))))
                 (\<lambda>err. ret None))
              (\<lambda>first. case first of
                 None \<Rightarrow> ret (failed st)
               | Some dates \<Rightarrow>
                   (let st1 = st\<lparr>availableDates := dates\<rparr>
                    in andThen
                         (tryCatch
                            (andThen (invoke env storedDatesRequest)
                               (\<lambda>storedResp. andThen (lift (datesOf storedResp)) (\<lambda>stored. ret (Some stored))))
                            (\<lambda>err. ret None))
                         (\<lambda>second. case second of
                            None \<Rightarrow> ret (failed st1)
                          | Some stored \<Rightarrow>
                              (let st2 = st1\<lparr>storedDates := stored\<rparr>
                               in if greaterThanZero (pageConvGreaterThanZero env) (lengthOf dates)
                                     \<and> \<not> truthy (selectedDate snap)
                                  then (case getProp (firstItem dates) (js ''fmcsa_date'') of
                                          Inl e \<Rightarrow> ret (failed st2)
                                        | Inr v \<Rightarrow> ret (st2\<lparr>selectedDate := v\<rparr>))
                                  else ret st2)))))
           (\<lambda>st'. ret (st'\<lparr>isLoadingDates := False\<rparr>)))"

text \<open>The parameters of the records request (lines 108-117).\<close>

definition recordsParams :: "PageState \<Rightarrow> jsval" where
  "recordsParams snap =
     Object
       ([(js ''register_date'', selectedDate snap), (js ''limit'', String (js ''1000''))]
        @ (if selectedCategory snap \<noteq> [] \<and> selectedCategory snap \<noteq> js ''ALL''
           then [(js ''category'', String (selectedCategory snap))] else [])
        @ (if trim (searchQuery snap) \<noteq> []
           then [(js ''search'', String (trim (searchQuery snap)))] else []))"

text \<open>\<^verbatim>\<open>fetchRecords\<close> (lines 103-136).\<close>

definition fetchRecords :: "penv \<Rightarrow> PageState \<Rightarrow> PageState \<Rightarrow> (request, PageState) io" where
  "fetchRecords env snap st0 =
     (if \<not> truthy (selectedDate snap) then ret st0
      else
        (let st = st0\<lparr>pageIsLoading := True\<rparr>
         in andThen
              (tryCatch
                 (andThen (invoke env (Request (js ''/api/v1/fmcsa/records'') (js ''GET'') (recordsParams snap)))
                    (\<lambda>response. andThen (lift (getProp response (js ''data''))) (\<lambda>d.
                       ret (st\<lparr>records := orElse (optChain d ''items'') (Array []),
                               totalRecords := orElse (optChain d ''total'') (Number (Num 0)),
                               pageCategories := orElse (optChain d ''categories'') (Array [])\<rparr>))))
                 (\<lambda>err. ret (st\<lparr>records := Array [], totalRecords := Number (Num 0)\<rparr>)))
              (\<lambda>st'. ret (st'\<lparr>pageIsLoading := False\<rparr>))))"

text \<open>
  The message of the \<^verbatim>\<open>catch\<close> in \<^verbatim>\<open>handleScrape\<close> (line 168):
  \<^verbatim>\<open>err?.data?.detail || err?.response?.data?.detail || err?.message || 'Scrape failed'\<close>.
\<close>

definition scrapeFailureDetail :: "exn \<Rightarrow> jsval" where
  "scrapeFailureDetail err =
     (let v = thrownValue err
      in orElse (optChain (optChain v ''data'') ''detail'')
           (orElse (optChain (optChain (optChain v ''response'') ''data'') ''detail'')
              (orElse (optChain v ''message'') (String (js ''Scrape failed'')))))"

text \<open>
  \<^verbatim>\<open>handleScrape\<close> (lines 139-172). The \<^verbatim>\<open>try\<close> block is cut after
  \<^verbatim>\<open>toast.success\<close>, which stays shown when the request after it throws.
\<close>

definition handleScrape :: "penv \<Rightarrow> PageState \<Rightarrow> PageState \<Rightarrow> (request, PageState) io" where
  "handleScrape env snap st0 =
     (if \<not> truthy (selectedDate snap)
      then ret (toast ''error'' (String (js ''Please select a date first'')) st0)
      else
        (let st = st0\<lparr>isScraping := True\<rparr>
         in andThen
              (andThen
                 (tryCatch
                    (andThen
                       (invoke env (Request (js ''/api/v1/fmcsa/scrape'') (js ''POST'')
                                      (Object [(js ''pd_date'', selectedDate snap)])))
                       (\<lambda>response. andThen (lift (getProp response (js ''data''))) (\<lambda>result.
                          andThen (lift (getProp result (js ''records_count''))) (\<lambda>n.
                            ret (Inr (greaterThanZero (pageConvGreaterThanZero env) n,
                                      optChain result ''message''))))))
                    (\<lambda>err. ret (Inl err)))
                 (\<lambda>first. case first of
                    Inl err \<Rightarrow> ret (toast ''error'' (scrapeFailureDetail err) st)
                  | Inr (True, msg) \<Rightarrow>
                      (let st1 = toast ''success'' msg st
                       in andThen
                            (tryCatch
                               (andThen (invoke env storedDatesRequest)
                                  (\<lambda>storedResp. andThen (lift (datesOf storedResp)) (\<lambda>stored. ret (Inr stored))))
                               (\<lambda>err. ret (Inl err)))
                            (\<lambda>second. case second of
                               Inl err \<Rightarrow> ret (toast ''error'' (scrapeFailureDetail err) st1)
                             | Inr stored \<Rightarrow>
                                 tryCatch (fetchRecords env snap (st1\<lparr>storedDates := stored\<rparr>))
                                   (\<lambda>err. ret (toast ''error'' (scrapeFailureDetail err)
                                                 (st1\<lparr>storedDates := stored\<rparr>)))))
                  | Inr (False, msg) \<Rightarrow> ret (toast ''warning'' msg st)))
              (\<lambda>st'. ret (st'\<lparr>isScraping := False\<rparr>))))"

section \<open>Properties the claims speak of\<close>

text \<open>
  The encoding that \<^verbatim>\<open>cfDecodeEmail\<close> undoes, written after the claim: the key byte as
  two hexadecimal digits, then every character XOR the key as two hexadecimal digits.
  The flag chooses upper-case or lower-case digits.
\<close>

definition hexDigit :: "bool \<Rightarrow> nat \<Rightarrow> 16 word" where
  "hexDigit upper n = (if n < 10 then 0x30 + word_of_nat n else (if upper then 0x41 else 0x61) + word_of_nat (n - 10))"

definition toHex2 :: "bool \<Rightarrow> nat \<Rightarrow> jsstring" where
  "toHex2 upper n = [hexDigit upper (n div 16), hexDigit upper (n mod 16)]"

definition cfEncodeEmail :: "bool \<Rightarrow> nat \<Rightarrow> jsstring \<Rightarrow> jsstring" where
  "cfEncodeEmail upper r s = toHex2 upper r @ concat (map (\<lambda>c. toHex2 upper (unat c XOR r)) s)"



text \<open>
  What one attempt through a proxy URL gives: the body of an ok response, parsed as JSON
  when it parses; nothing when the request fails, the response is not ok or the body
  cannot be read.
\<close>

definition proxyAnswer :: "env \<Rightarrow> jsstring \<Rightarrow> jsval option" where
  "proxyAnswer env p =
     (case fetch env p of
        Rejects \<Rightarrow> None
      | Resolves r \<Rightarrow>
          if ok r then
            (case body r of
               None \<Rightarrow> None
             | Some t \<Rightarrow> Some (case JSON_parse env t of Some v \<Rightarrow> v | None \<Rightarrow> String t))
          else None)"

text \<open>
  What an ok response to the direct request gives: JSON when the content type says so, the
  text otherwise; nothing when the body cannot be read or the JSON does not parse.
\<close>

definition directAnswer :: "env \<Rightarrow> jsstring \<Rightarrow> jsval option" where
  "directAnswer env u =
     (case fetch env u of
        Rejects \<Rightarrow> None
      | Resolves r \<Rightarrow>
          (case body r of
             None \<Rightarrow> None
           | Some t \<Rightarrow>
               if (case contentType r of None \<Rightarrow> False
                   | Some ct \<Rightarrow> includesStr ct (js ''application/json''))
               then JSON_parse env t
               else Some (String t)))"

text \<open>
  The query of \<^verbatim>\<open>fetchRegisterData\<close>, and the state it leaves when the fetch fails with
  the exception \<open>x\<close>: the mock data are shown, with a banner that names the failure.
\<close>

definition registerQuery :: query where
  "registerQuery =
     [From (js ''fmcsa_register''), Select (js ''*''), Order (js ''published_date'') False, Limit (Num 2000)]"

definition failedState :: "renv \<Rightarrow> RegisterState \<Rightarrow> exn \<Rightarrow> RegisterState" where
  "failedState env st0 x =
     st0\<lparr>isLoading := False, registerData := mockData, lastUpdated := nowString env,
         errorBanner := js ''Database Error: ''
            @ toStringJS env (orElse (optChain (thrownValue x) ''message'') (String (js ''Check connection'')))
            @ js ''. Showing mock data.''\<rparr>"

text \<open>
  The optional fields of a carrier with the columns that hold them, the three list fields,
  and the value an object stores under a name.
\<close>

definition optionalFields :: "(string \<times> string) list" where
  "optionalFields =
     [(''dbaName'', ''dba_name''), (''email'', ''email''), (''phone'', ''phone''),
      (''powerUnits'', ''power_units''), (''drivers'', ''drivers''), (''nonCmvUnits'', ''non_cmv_units''),
      (''physicalAddress'', ''physical_address''), (''mailingAddress'', ''mailing_address''),
      (''mcs150Date'', ''mcs150_date''), (''mcs150Mileage'', ''mcs150_mileage''),
      (''outOfServiceDate'', ''out_of_service_date''), (''stateCarrierId'', ''state_carrier_id''),
      (''dunsNumber'', ''duns_number''), (''safetyRating'', ''safety_rating''),
      (''safetyRatingDate'', ''safety_rating_date''), (''basicScores'', ''basic_scores''),
      (''oosRates'', ''oos_rates''), (''insurancePolicies'', ''insurance_policies'')]"

definition listFields :: "(string \<times> string) list" where
  "listFields =
     [(''operationClassification'', ''operation_classification''),
      (''carrierOperation'', ''carrier_operation''), (''cargoCarried'', ''cargo_carried'')]"

definition stored :: "jsval \<Rightarrow> string \<Rightarrow> jsval option" where
  "stored record name = (case record of Object props \<Rightarrow> map_of props (js name) | _ \<Rightarrow> None)"

text \<open>The service, when it rejects, rejects with a value other than null and undefined.\<close>

definition rejectsWithValue :: "supabase \<Rightarrow> bool" where
  "rejectsWithValue sb \<longleftrightarrow>
     (\<forall>q x. sb q = QRejects x \<longrightarrow> thrownValue x \<noteq> Null \<and> thrownValue x \<noteq> Undefined)"

section \<open>Concrete environments\<close>

text \<open>
  \<^verbatim>\<open>encodeURIComponent\<close> on ASCII strings: letters, digits and \<^verbatim>\<open>- _ . ! ~ * ' ( )\<close> are kept,
  every other character becomes \<^verbatim>\<open>%XX\<close>. (The concrete environments below pass ASCII
  only; other strings are outside this table.)
\<close>

definition isUnreserved :: "16 word \<Rightarrow> bool" where
  "isUnreserved c \<longleftrightarrow>
     (0x41 \<le> c \<and> c \<le> 0x5A) \<or> (0x61 \<le> c \<and> c \<le> 0x7A) \<or> (0x30 \<le> c \<and> c \<le> 0x39) \<or>
     c = 0x2D \<or> c = 0x5F \<or> c = 0x2E \<or> c = 0x21 \<or> c = 0x7E \<or> c = 0x2A \<or> c = 0x27 \<or>
     c = 0x28 \<or> c = 0x29"

definition encodeAscii :: "jsstring \<Rightarrow> jsstring option" where
  "encodeAscii s =
     (if list_all (\<lambda>c. c < 0x80) s
      then Some (concat (map (\<lambda>c. if isUnreserved c then [c] else 0x25 # toHex2 True (unat c)) s))
      else None)"

definition htmlPage :: "jsstring \<Rightarrow> response" where
  "htmlPage html = \<lparr>ok = True, contentType = Some (js ''text/html''), body = Some html\<rparr>"

text \<open>
  The direct request is refused (as a cross-origin request is), every other URL answers
  with a page.
\<close>

definition env_direct_down :: env where
  "env_direct_down =
     \<lparr>fetch = (\<lambda>url. if url = js ''example.com'' then Rejects else Resolves (htmlPage (js ''page''))),
      JSON_parse = (\<lambda>t. None),
      encodeURIComponent = encodeAscii,
      parseFromString = (\<lambda>html. []),
      innerText = (\<lambda>e. textContent (self e)),
      toLocaleDateString = js ''1/2/2026'',
      fetchCarrierFromBackend = (\<lambda>mc. Inr None),
      fetchSafetyFromBackend = (\<lambda>dot. Inr None)\<rparr>"

text \<open>The direct request answers with an ok page.\<close>

definition env_direct_ok :: env where
  "env_direct_ok = env_direct_down\<lparr>fetch := (\<lambda>url. Resolves (htmlPage (js ''direct'')))\<rparr>"

text \<open>No request succeeds and the backend has nothing.\<close>

definition env_offline :: env where
  "env_offline = env_direct_down\<lparr>fetch := (\<lambda>url. Rejects)\<rparr>"

text \<open>The backend has the carrier and the safety record; no request succeeds.\<close>

definition env_backend_hit :: env where
  "env_backend_hit =
     env_offline\<lparr>fetchCarrierFromBackend := (\<lambda>mc. Inr (Some sampleCarrier)),
                 fetchSafetyFromBackend := (\<lambda>dot. Inr (Some sampleSafety))\<rparr>"

text \<open>The service is unreachable; the service answers with an error.\<close>

definition sb_down :: supabase where
  "sb_down = (\<lambda>q. QRejects (NetworkError (js ''Failed to fetch'')))"

definition sb_error :: supabase where
  "sb_error = (\<lambda>q. QResolves Null (Object [(js ''message'', String (js ''permission denied''))]))"

definition noFilters :: CarrierFilters where
  "noFilters =
     \<lparr>mcNumber = None, dotNumber = None, legalName = None, active = None, state = None,
      hasEmail = None, powerUnitsMin = None, powerUnitsMax = None, driversMin = None,
      driversMax = None, limit = None\<rparr>"

definition renv_down :: renv where
  "renv_down =
     \<lparr>supabaseClient = sb_down,
      dateString = (\<lambda>v. js ''Invalid Date''),
      nowString = js ''1/2/2026, 10:00:00 AM'',
      toStringJS = (\<lambda>v. case v of String s \<Rightarrow> s | _ \<Rightarrow> js ''[object Object]''),
      convGreaterThanZero = (\<lambda>v. False)\<rparr>"

definition initialState :: RegisterState where
  "initialState = \<lparr>registerData = [], isLoading = False, lastUpdated = [], errorBanner = []\<rparr>"

text \<open>
  A carrier snapshot page and the registration page of the same carrier, each with the
  tree that the HTML parser builds from it. The email of the registration page is
  \<^verbatim>\<open>a@b.c\<close> under the key \<^verbatim>\<open>5a\<close>.
\<close>

definition snapshotHtml :: jsstring where
  "snapshotHtml = js ''<center><table><tr><th>Legal Name:</th><td>ACME  TRUCKING LLC</td></tr><tr><th>USDOT Number:</th><td>7654321</td></tr><tr><th>Phone:</th></tr></table></center>''"

definition snapshotDoc :: document where
  "snapshotDoc =
     [Element (js ''html'') []
        [Element (js ''head'') [] [],
         Element (js ''body'') []
           [Element (js ''center'') []
              [Element (js ''table'') []
                 [Element (js ''tbody'') []
                    [Element (js ''tr'') []
                       [Element (js ''th'') [] [Text (js ''Legal Name:'')],
                        Element (js ''td'') [] [Text (js ''ACME  TRUCKING LLC'')]],
                     Element (js ''tr'') []
                       [Element (js ''th'') [] [Text (js ''USDOT Number:'')],
                        Element (js ''td'') [] [Text (js ''7654321'')]],
                     Element (js ''tr'') []
                       [Element (js ''th'') [] [Text (js ''Phone:'')]]]]]]]]"

definition smsHtml :: jsstring where
  "smsHtml = js ''<ul><li><label>Email:</label><a data-cfemail=5a3b1a387439>[email]</a></li></ul>''"

definition smsDoc :: document where
  "smsDoc =
     [Element (js ''html'') []
        [Element (js ''head'') [] [],
         Element (js ''body'') []
           [Element (js ''ul'') []
              [Element (js ''li'') []
                 [Element (js ''label'') [] [Text (js ''Email:'')],
                  Element (js ''a'') [(js ''data-cfemail'', js ''5a3b1a387439'')]
                    [Text (js ''[email]'')]]]]]]"

definition plainHtml :: jsstring where
  "plainHtml = js ''<p>Record Not Found</p>''"

definition plainDoc :: document where
  "plainDoc =
     [Element (js ''html'') []
        [Element (js ''head'') [] [],
         Element (js ''body'') [] [Element (js ''p'') [] [Text (js ''Record Not Found'')]]]]"

definition parsePages :: "jsstring \<Rightarrow> document" where
  "parsePages html =
     (if html = snapshotHtml then snapshotDoc
      else if html = smsHtml then smsDoc
      else if html = plainHtml then plainDoc
      else [])"

definition smsUrl7654321 :: jsstring where
  "smsUrl7654321 = js ''https://ai.fmcsa.dot.gov/SMS/Carrier/7654321/CarrierRegistration.aspx''"

text \<open>The direct requests for carrier 123456 are answered; the backend has nothing.\<close>

definition env_snapshot :: env where
  "env_snapshot =
     env_offline
       \<lparr>fetch := (\<lambda>url. if url = carrierSnapshotUrl (js ''123456'') then Resolves (htmlPage snapshotHtml)
                        else if url = smsUrl7654321 then Resolves (htmlPage smsHtml)
                        else Rejects),
        parseFromString := parsePages\<rparr>"


text \<open>The header cells of the snapshot page.\<close>

definition snapshotThs :: "elem list" where
  "snapshotThs = docQuerySelectorAll snapshotDoc (Simple (Tag (js ''th'')))"

text \<open>
  A carrier as the scraper hands it to \<^verbatim>\<open>saveCarrierToSupabase\<close> (empty email, no DBA name,
  one list present), a row as the service returns it (no list column set), and a service
  that answers every query with that row.
\<close>

definition sampleInput :: jsval where
  "sampleInput =
     Object [(js ''mcNumber'', String (js ''123456'')), (js ''dotNumber'', String (js ''7654321'')),
             (js ''legalName'', String (js ''ACME TRUCKING LLC'')), (js ''email'', String []),
             (js ''cargoCarried'', Array [String (js ''General Freight'')])]"

definition sampleRow :: jsval where
  "sampleRow =
     Object [(js ''mc_number'', String (js ''123456'')), (js ''dot_number'', String (js ''7654321'')),
             (js ''legal_name'', String (js ''ACME TRUCKING LLC'')), (js ''email'', Null),
             (js ''cargo_carried'', Null)]"

definition sb_rows :: supabase where
  "sb_rows = (\<lambda>q. QResolves (Array [sampleRow]) Null)"

text \<open>Filters that set only the limit, to 0 and to 5.\<close>

definition zeroLimit :: CarrierFilters where
  "zeroLimit = noFilters\<lparr>limit := Some (Num 0)\<rparr>"

definition fiveLimit :: CarrierFilters where
  "fiveLimit = noFilters\<lparr>limit := Some (Num 5)\<rparr>"

text \<open>The API of the register page is unreachable; the page as first rendered, and with a date chosen.\<close>

definition penv_down :: penv where
  "penv_down =
     \<lparr>apiCall = (\<lambda>req. ARejects (NetworkError (js ''Network Error''))),
      pageConvGreaterThanZero = (\<lambda>v. False)\<rparr>"

definition initialPage :: PageState where
  "initialPage =
     \<lparr>records = Array [], totalRecords = Number (Num 0), pageCategories = Array [],
      availableDates = Array [], storedDates = Array [], selectedDate = String [],
      selectedCategory = js ''ALL'', searchQuery = [], pageIsLoading = False,
      isScraping = False, isLoadingDates = True, toasts = []\<rparr>"

definition datedPage :: PageState where
  "datedPage = initialPage\<lparr>selectedDate := String (js ''2026-02-20''), isLoadingDates := False\<rparr>"

section \<open>The acc decoder inverts the encoding\<close>

lemma lt16: "n < 16 \<Longrightarrow> n \<in> {0,1,2,3,4,5,6,7,8,9,10,11,12,13,14,15::nat}"
  by simp arith

lemma lt16_cases:
  "P 0 \<Longrightarrow> P 1 \<Longrightarrow> P 2 \<Longrightarrow> P 3 \<Longrightarrow> P 4 \<Longrightarrow> P 5 \<Longrightarrow> P 6 \<Longrightarrow> P 7 \<Longrightarrow> P 8 \<Longrightarrow> P 9 \<Longrightarrow>
   P 10 \<Longrightarrow> P 11 \<Longrightarrow> P 12 \<Longrightarrow> P 13 \<Longrightarrow> P 14 \<Longrightarrow> P 15 \<Longrightarrow> n < 16 \<Longrightarrow> P (n::nat)"
  by (drule lt16) (elim insertE emptyE; simp)

lemma hexDigit_value: "n < 16 \<Longrightarrow> hexDigitValue (hexDigit up n) = Some (int n)"
  by (rule lt16_cases [where P = "\<lambda>n. hexDigitValue (hexDigit up n) = Some (int n)"])
    (simp_all add: hexDigit_def hexDigitValue_def)

lemma hexDigit_notws: "n < 16 \<Longrightarrow> \<not> isWhiteSpace (hexDigit up n)"
  by (rule lt16_cases [where P = "\<lambda>n. \<not> isWhiteSpace (hexDigit up n)"])
    (simp_all add: hexDigit_def isWhiteSpace_def)

lemma hexDigit_neq: "n < 16 \<Longrightarrow> hexDigit up n \<noteq> 0x2B \<and> hexDigit up n \<noteq> 0x2D \<and> hexDigit up n \<noteq> 0x78 \<and> hexDigit up n \<noteq> 0x58"
  by (rule lt16_cases [where P = "\<lambda>n. hexDigit up n \<noteq> 0x2B \<and> hexDigit up n \<noteq> 0x2D \<and> hexDigit up n \<noteq> 0x78 \<and> hexDigit up n \<noteq> 0x58"])
    (simp_all add: hexDigit_def)

lemma parseInt16_toHex2:
  assumes "v < 256"
  shows "parseInt16 (toHex2 up v) = Some (int v)"
proof -
  have a: "v div 16 < 16" and b: "v mod 16 < 16" using assms by auto
  have v: "int v = 16 * int (v div 16) + int (v mod 16)"
    by presburger
  show ?thesis
    using hexDigit_value [OF a, of up] hexDigit_value [OF b, of up]
      hexDigit_notws [OF a, of up] hexDigit_neq [OF a, of up] hexDigit_neq [OF b, of up]
    by (simp add: parseInt16_def toHex2_def js_def isHexDigit_def hexValue_def Let_def v)
qed

lemma w2: "((x :: 32 word) XOR y) XOR y = x"
  by (simp add: xor.assoc)

lemma w3: "(ucast (ucast (c :: 16 word) :: 32 word) :: 16 word) = c"
  by (rule bit_word_eqI) (auto simp: bit_simps)

lemma w4: "(word_of_int (uint (c :: 16 word) XOR int r) :: 32 word) = ucast c XOR word_of_nat r"
  by (simp add: of_int_xor_eq)

lemma xor_back: "fromCharCode (toInt32 (Some (int (unat c XOR r))) XOR toInt32 (Some (int r))) = (c :: 16 word)"
  by (simp add: fromCharCode_def toInt32_def of_nat_xor_eq w4 w2 w3)

lemma xor_lt_256: "a < 256 \<Longrightarrow> b < 256 \<Longrightarrow> a XOR b < (256 :: nat)"
proof -
  assume "a < 256" "b < 256"
  then have "a XOR b = take_bit 8 a XOR take_bit 8 b" by (simp add: take_bit_nat_eq_self)
  also have "\<dots> = take_bit 8 (a XOR b)" by simp
  also have "\<dots> < 2 ^ 8" by (rule take_bit_nat_less_exp)
  finally show ?thesis by simp
qed

lemma cfDecodeLoop_chunks:
  "(\<forall>c\<in>set s. unat c XOR r < 256) \<Longrightarrow>
   cfDecodeLoop (pre @ concat (map (\<lambda>c. toHex2 up (unat c XOR r)) s)) (Some (int r)) (length pre) acc
     = acc @ s"
proof (induction s arbitrary: pre acc)
  case Nil
  show ?case by (subst cfDecodeLoop.simps) simp
next
  case (Cons c s)
  let ?h = "toHex2 up (unat c XOR r)"
  have len: "length ?h = 2" by (simp add: toHex2_def)
  have p: "parseInt16 ?h = Some (int (unat c XOR r))"
    using Cons.prems by (simp add: parseInt16_toHex2)
  have sub: "substr (pre @ ?h @ concat (map (\<lambda>c. toHex2 up (unat c XOR r)) s)) (length pre) 2 = ?h"
    by (simp add: substr_def len)
  have ih: "cfDecodeLoop ((pre @ ?h) @ concat (map (\<lambda>c. toHex2 up (unat c XOR r)) s)) (Some (int r))
      (length (pre @ ?h)) (acc @ [c]) = (acc @ [c]) @ s"
    using Cons.prems by (intro Cons.IH) simp
  show ?case
    apply (subst cfDecodeLoop.simps)
    using ih by (simp add: sub p xor_back len)
qed

text \<open>
  Claim C2. For every key byte \<open>r < 256\<close> and every string \<open>s\<close> of character codes below 256,
  decoding the two-hex-digit rendering of \<open>r\<close> followed by the two-hex-digit renderings of
  \<open>c XOR r\<close> for the characters \<open>c\<close> of \<open>s\<close> gives back \<open>s\<close>.
\<close>

theorem cfDecodeEmail_inverts:
  assumes "r < 256" and "\<forall>c\<in>set s. c < 256"
  shows "cfDecodeEmail (cfEncodeEmail up r s) = s"
proof -
  have x: "\<forall>c\<in>set s. unat c XOR r < 256"
    using assms by (auto intro!: xor_lt_256 simp: word_less_nat_alt)
  have k: "substr (toHex2 up r @ concat (map (\<lambda>c. toHex2 up (unat c XOR r)) s)) 0 2 = toHex2 up r"
    by (simp add: substr_def toHex2_def)
  have "cfDecodeLoop (toHex2 up r @ concat (map (\<lambda>c. toHex2 up (unat c XOR r)) s)) (Some (int r))
      (length (toHex2 up r)) [] = [] @ s"
    using x by (rule cfDecodeLoop_chunks)
  moreover have "length (toHex2 up r) = 2" by (simp add: toHex2_def)
  ultimately show ?thesis
    unfolding cfDecodeEmail_def cfEncodeEmail_def k parseInt16_toHex2 [OF assms(1)] by simp
qed

theorem cfDecodeEmail_inverts_witness:
  "(0x5a::nat) < 256 \<and> cfDecodeEmail (cfEncodeEmail False 0x5a (js ''a@b.c'')) = js ''a@b.c''"
  using cfDecodeEmail_inverts [of "0x5a" "js ''a@b.c''" False] by (simp add: js_def)

section \<open>The acc decoder is total\<close>

lemma cfDecodeLoop_closed:
  "cfDecodeLoop enc r n acc =
     acc @ map (\<lambda>k. fromCharCode (toInt32 (parseInt16 (substr enc (n + 2 * k) 2)) XOR toInt32 r))
       [0 ..< (Suc (length enc) - n) div 2]"
proof (induction enc r n acc rule: cfDecodeLoop.induct)
  case (1 encoded r n acc)
  let ?g = "\<lambda>k. fromCharCode (toInt32 (parseInt16 (substr encoded k 2)) XOR toInt32 r)"
  show ?case
  proof (cases "n < length encoded")
    case True
    let ?m = "(Suc (length encoded) - (n + 2)) div 2"
    have "Suc (length encoded) - n = (Suc (length encoded) - (n + 2)) + 2"
      using True by linarith
    then have cnt: "(Suc (length encoded) - n) div 2 = Suc ?m"
      by simp
    have "cfDecodeLoop encoded r n acc = cfDecodeLoop encoded r (n + 2) (acc @ [?g n])"
      using True by (subst cfDecodeLoop.simps) simp
    also have "\<dots> = (acc @ [?g n]) @ map (\<lambda>k. ?g (n + 2 + 2 * k)) [0 ..< ?m]"
      using "1.IH" [OF True] .
    also have "\<dots> = acc @ map (\<lambda>k. ?g (n + 2 * k)) [0 ..< Suc ?m]"
      by (simp add: map_upt_Suc add.assoc del: upt_Suc)
    finally show ?thesis by (simp only: cnt)
  next
    case False
    then show ?thesis by (subst cfDecodeLoop.simps) simp
  qed
qed

lemma cfDecodeEmail_short: "length enc \<le> 2 \<Longrightarrow> cfDecodeEmail enc = []"
  by (simp add: cfDecodeEmail_def cfDecodeLoop_closed)

lemma word32_xor_zero: "toInt32 x XOR toInt32 None = toInt32 x"
  by (simp add: toInt32_def)

text \<open>
  Claim C9. \<^verbatim>\<open>cfDecodeEmail\<close> returns a string on every input, with one character for
  each group of two after the key: the empty string for an input of length at most 2, and,
  when the two leading characters are not hexadecimal (the key is NaN), the string of the
  remaining two-character groups decoded with key 0.
\<close>

theorem cfDecodeEmail_total:
  "(length enc \<le> 2 \<longrightarrow> cfDecodeEmail enc = []) \<and>
   (parseInt16 (substr enc 0 2) = None \<longrightarrow>
      cfDecodeEmail enc =
        map (\<lambda>k. fromCharCode (toInt32 (parseInt16 (substr enc (2 + 2 * k) 2))))
          [0 ..< (length enc - 1) div 2]) \<and>
   length (cfDecodeEmail enc) = (length enc - 1) div 2"
  by (simp add: cfDecodeEmail_def cfDecodeLoop_closed word32_xor_zero)

theorem cfDecodeEmail_total_witness:
  "cfDecodeEmail (js ''5a'') = [] \<and> cfDecodeEmail (js ''zz6162'') = js ''ab''"
proof -
  have a: "length (js ''5a'') \<le> 2" by (simp add: js_def)
  have b: "parseInt16 (substr (js ''zz6162'') 0 2) = None"
    by (simp add: js_def substr_def parseInt16_def isWhiteSpace_def isHexDigit_def hexDigitValue_def)
  have c: "map (\<lambda>k. fromCharCode (toInt32 (parseInt16 (substr (js ''zz6162'') (2 + 2 * k) 2))))
          [0 ..< (length (js ''zz6162'') - 1) div 2] = js ''ab''"
    by (simp add: js_def substr_def parseInt16_def isWhiteSpace_def isHexDigit_def hexDigitValue_def
        hexValue_def fromCharCode_def toInt32_def upt_rec)
  from cfDecodeEmail_total [of "js ''5a''"] cfDecodeEmail_total [of "js ''zz6162''"] a b c
  show ?thesis by simp
qed

section \<open>cleanText normalises and is idempotent\<close>



lemma collapseSpaces_Nil_iff: "collapseSpaces xs = [] \<longleftrightarrow> xs = []"
  by (cases xs) auto

















section \<open>Asynchronous results and the proxy chain\<close>

lemma js_Nil [simp]: "js [] = []" by (simp add: js_def)

lemma js_Cons_not_Nil [simp]: "js (c # cs) \<noteq> []" "[] \<noteq> js (c # cs)" by (simp_all add: js_def)

lemma andThen_simps [simp]:
  "andThen (Inr x, t) f = (fst (f x), t @ snd (f x))"
  "andThen (Inl e, t) f = (Inl e, t)"
  by (simp_all add: andThen_def split: prod.splits)

lemma tryCatch_simps [simp]:
  "tryCatch (Inr x, t) h = (Inr x, t)"
  "tryCatch (Inl e, t) h = (fst (h e), t @ snd (h e))"
  by (simp_all add: tryCatch_def split: prod.splits)

lemmas io_defs = ret_def throw_def lift_def

lemma proxyLoop_step:
  "g u = Inr p \<Longrightarrow>
   proxyLoop env (g # gs) u =
     (case proxyAnswer env p of
        Some v \<Rightarrow> (Inr v, [p])
      | None \<Rightarrow> (fst (proxyLoop env gs u), p # snd (proxyLoop env gs u)))"
  by (simp add: proxyLoop.simps doFetch_def responseText_def proxyAnswer_def io_defs
      split: fetch_result.splits option.splits)

lemma proxyLoop_step_throws:
  "g u = Inl x \<Longrightarrow> proxyLoop env (g # gs) u = proxyLoop env gs u"
  by (simp add: proxyLoop.simps io_defs)

lemma proxyLoop_chain:
  assumes "encodeURIComponent env u = Some e"
  shows "proxyLoop env (proxyGenerators env) u =
    (case proxyAnswer env (js ''https://api.allorigins.win/raw?url='' @ e) of
       Some v \<Rightarrow> (Inr v, [js ''https://api.allorigins.win/raw?url='' @ e])
     | None \<Rightarrow>
        (case proxyAnswer env (js ''https://api.codetabs.com/v1/proxy?quest='' @ e) of
           Some v \<Rightarrow> (Inr v, [js ''https://api.allorigins.win/raw?url='' @ e,
                              js ''https://api.codetabs.com/v1/proxy?quest='' @ e])
         | None \<Rightarrow> (Inr Null, [js ''https://api.allorigins.win/raw?url='' @ e,
                               js ''https://api.codetabs.com/v1/proxy?quest='' @ e])))"
proof -
  let ?a = "js ''https://api.allorigins.win/raw?url='' @ e"
  let ?c = "js ''https://api.codetabs.com/v1/proxy?quest='' @ e"
  let ?ga = "\<lambda>url. case encodeURIComponent env url of
              None \<Rightarrow> Inl (URIError (js ''URI malformed''))
            | Some u \<Rightarrow> Inr (js ''https://api.allorigins.win/raw?url='' @ u)"
  let ?gc = "\<lambda>url. case encodeURIComponent env url of
              None \<Rightarrow> Inl (URIError (js ''URI malformed''))
            | Some u \<Rightarrow> Inr (js ''https://api.codetabs.com/v1/proxy?quest='' @ u)"
  have ga: "?ga u = Inr ?a" and gc: "?gc u = Inr ?c" using assms by simp_all
  have 1: "proxyLoop env [?gc] u =
      (case proxyAnswer env ?c of Some v \<Rightarrow> (Inr v, [?c]) | None \<Rightarrow> (Inr Null, [?c]))"
    using proxyLoop_step [of ?gc u ?c env "[]"] gc by (simp add: proxyLoop.simps(1) ret_def split: option.splits)
  have 2: "proxyLoop env [?ga, ?gc] u =
      (case proxyAnswer env ?a of
         Some v \<Rightarrow> (Inr v, [?a])
       | None \<Rightarrow> (fst (proxyLoop env [?gc] u), ?a # snd (proxyLoop env [?gc] u)))"
    using proxyLoop_step [of ?ga u ?a env "[?gc]"] ga by simp
  show ?thesis
    unfolding proxyGenerators_def 2 1 by (simp split: option.splits)
qed

lemma proxyLoop_returns: "\<exists>v t. proxyLoop env gs u = (Inr v, t)"
proof (induction gs)
  case Nil
  show ?case by (simp add: proxyLoop.simps(1) ret_def)
next
  case (Cons g gs)
  then obtain v t where ih: "proxyLoop env gs u = (Inr v, t)" by blast
  show ?case
  proof (cases "g u")
    case (Inl x)
    then show ?thesis using ih proxyLoop_step_throws [of g u x env gs] by simp
  next
    case (Inr p)
    then show ?thesis using ih proxyLoop_step [of g u p env gs] by (simp split: option.splits)
  qed
qed

lemma fetchUrl_cases:
  "fetchUrl env u useProxy =
     (if useProxy then proxyLoop env (proxyGenerators env) u
      else (case fetch env u of
              Rejects \<Rightarrow> (Inr Null, [u])
            | Resolves r \<Rightarrow>
                if ok r then (Inr (case directAnswer env u of Some v \<Rightarrow> v | None \<Rightarrow> Null), [u])
                else (fst (proxyLoop env (proxyGenerators env) u),
                      u # snd (proxyLoop env (proxyGenerators env) u))))"
  by (simp add: fetchUrl_def doFetch_def responseText_def responseJson_def directAnswer_def io_defs
      split: fetch_result.splits option.splits)

lemma fetchUrl_returns: "\<exists>v t. fetchUrl env u useProxy = (Inr v, t)"
  using proxyLoop_returns [of env "proxyGenerators env" u]
  by (auto simp: fetchUrl_cases split: fetch_result.splits)

lemma example_enc: "encodeAscii (js ''example.com'') = Some (js ''example.com'')"
  by (simp add: encodeAscii_def js_def isUnreserved_def)

lemma fixture_simps:
  "fetch env_direct_down = (\<lambda>url. if url = js ''example.com'' then Rejects else Resolves (htmlPage (js ''page'')))"
  "JSON_parse env_direct_down = (\<lambda>t. None)"
  "encodeURIComponent env_direct_down = encodeAscii"
  "fetch env_direct_ok = (\<lambda>url. Resolves (htmlPage (js ''direct'')))"
  "JSON_parse env_direct_ok = (\<lambda>t. None)"
  "encodeURIComponent env_direct_ok = encodeAscii"
  "fetch env_offline = (\<lambda>url. Rejects)"
  "JSON_parse env_offline = (\<lambda>t. None)"
  "encodeURIComponent env_offline = encodeAscii"
  "fetchCarrierFromBackend env_offline = (\<lambda>mc. Inr None)"
  "fetchSafetyFromBackend env_offline = (\<lambda>dot. Inr None)"
  "fetchCarrierFromBackend env_direct_down = (\<lambda>mc. Inr None)"
  "fetchSafetyFromBackend env_direct_down = (\<lambda>dot. Inr None)"
  by (simp_all add: env_direct_down_def env_direct_ok_def env_offline_def)

lemma proxy_neq_example:
  "js ''https://api.allorigins.win/raw?url='' @ x \<noteq> js ''example.com''"
  "js ''https://api.codetabs.com/v1/proxy?quest='' @ x \<noteq> js ''example.com''"
  by (simp_all add: js_def)

section \<open>The operations of mockService.ts, case by case\<close>

lemma proxyLoop_offline:
  assumes "\<forall>x. fetch env x = Rejects"
  shows "fst (proxyLoop env gs u) = Inr Null"
proof (induction gs)
  case Nil
  show ?case by (simp add: proxyLoop.simps(1) ret_def)
next
  case (Cons g gs)
  show ?case
  proof (cases "g u")
    case (Inl x)
    then show ?thesis using Cons proxyLoop_step_throws [of g u x env gs] by simp
  next
    case (Inr p)
    have "proxyAnswer env p = None" using assms by (simp add: proxyAnswer_def)
    then show ?thesis using Cons Inr proxyLoop_step [of g u p env gs] by simp
  qed
qed

lemma fetchUrl_offline:
  assumes "\<forall>x. fetch env x = Rejects"
  shows "fst (fetchUrl env u useProxy) = Inr Null"
  using assms proxyLoop_offline [OF assms] by (simp add: fetchUrl_cases)

lemma fetchCarrierEmailFromSMS_cases:
  "fetchCarrierEmailFromSMS env d useProxy =
     (if d = [] \<or> d = js ''UNKNOWN'' then (Inr [], [])
      else (case fetchUrl env (js ''https://ai.fmcsa.dot.gov/SMS/Carrier/'' @ d @ js ''/CarrierRegistration.aspx'') useProxy of
              (Inr (String r), t) \<Rightarrow>
                (Inr (emailFromLabels (docQuerySelectorAll (parseFromString env r) (Simple (Tag (js ''label''))))), t)
            | (Inr _, t) \<Rightarrow> (Inr [], t)
            | (Inl e, t) \<Rightarrow> (Inl e, t)))"
  by (simp add: fetchCarrierEmailFromSMS_def io_defs Let_def split: prod.splits sum.splits jsval.splits)

lemma fetchCarrierEmailFromSMS_returns: "\<exists>v t. fetchCarrierEmailFromSMS env d useProxy = (Inr v, t)"
proof -
  obtain v t where "fetchUrl env (js ''https://ai.fmcsa.dot.gov/SMS/Carrier/'' @ d @ js ''/CarrierRegistration.aspx'') useProxy = (Inr v, t)"
    using fetchUrl_returns by blast
  then show ?thesis
    by (simp add: fetchCarrierEmailFromSMS_cases split: jsval.splits)
qed

lemma fetchCarrierEmailFromSMS_offline:
  assumes "\<forall>x. fetch env x = Rejects"
  shows "fst (fetchCarrierEmailFromSMS env d useProxy) = Inr []"
proof -
  obtain v t where f: "fetchUrl env (js ''https://ai.fmcsa.dot.gov/SMS/Carrier/'' @ d @ js ''/CarrierRegistration.aspx'') useProxy = (Inr v, t)"
    using fetchUrl_returns by blast
  with fetchUrl_offline [OF assms, of "js ''https://ai.fmcsa.dot.gov/SMS/Carrier/'' @ d @ js ''/CarrierRegistration.aspx''" useProxy]
  have "v = Null" by simp
  with f show ?thesis by (simp add: fetchCarrierEmailFromSMS_cases)
qed

lemma scrapeRealCarrier_cases:
  "scrapeRealCarrier env mc useProxy =
     (case fetchCarrierFromBackend env mc of
        Inl e \<Rightarrow> (Inl e, [])
      | Inr (Some r) \<Rightarrow> (Inr (Some r), [])
      | Inr None \<Rightarrow>
          (case fetchUrl env (carrierSnapshotUrl mc) useProxy of
             (Inl e, t) \<Rightarrow> (Inl e, t)
           | (Inr (String h), t) \<Rightarrow>
               (if docQuerySelector (parseFromString env h) (Simple (Tag (js ''center''))) = None
                then (Inr None, t)
                else if CarrierData.dotNumber (carrierFromDocument env (parseFromString env h) mc) = []
                then (Inr (Some (carrierFromDocument env (parseFromString env h) mc)), t)
                else (case fetchCarrierEmailFromSMS env
                             (CarrierData.dotNumber (carrierFromDocument env (parseFromString env h) mc)) useProxy of
                        (Inl e, t') \<Rightarrow> (Inl e, t @ t')
                      | (Inr em, t') \<Rightarrow>
                          (Inr (Some ((carrierFromDocument env (parseFromString env h) mc)\<lparr>email := em\<rparr>)), t @ t')))
           | (Inr _, t) \<Rightarrow> (Inr None, t)))"
  by (simp add: scrapeRealCarrier_def io_defs Let_def split: prod.splits sum.splits jsval.splits option.splits)

lemma scrapeRealCarrier_returns:
  assumes "fetchCarrierFromBackend env mc = Inr b"
  shows "\<exists>v t. scrapeRealCarrier env mc useProxy = (Inr v, t)"
proof -
  obtain v t where f: "fetchUrl env (carrierSnapshotUrl mc) useProxy = (Inr v, t)"
    using fetchUrl_returns by blast
  show ?thesis
  proof (cases "\<exists>h. v = String h")
    case True
    then obtain h where h: "v = String h" by blast
    obtain em t' where "fetchCarrierEmailFromSMS env
        (CarrierData.dotNumber (carrierFromDocument env (parseFromString env h) mc)) useProxy = (Inr em, t')"
      using fetchCarrierEmailFromSMS_returns by blast
    with f h assms show ?thesis
      by (simp add: scrapeRealCarrier_cases split: option.splits)
  next
    case False
    with f assms show ?thesis
      by (cases v) (simp_all add: scrapeRealCarrier_cases split: option.splits)
  qed
qed

lemma scrapeRealCarrier_offline:
  assumes "\<forall>x. fetch env x = Rejects" and "fetchCarrierFromBackend env mc = Inr None"
  shows "fst (scrapeRealCarrier env mc useProxy) = Inr None"
proof -
  obtain v t where f: "fetchUrl env (carrierSnapshotUrl mc) useProxy = (Inr v, t)"
    using fetchUrl_returns by blast
  with fetchUrl_offline [OF assms(1), of "carrierSnapshotUrl mc" useProxy] have "v = Null" by simp
  with f assms(2) show ?thesis by (simp add: scrapeRealCarrier_cases)
qed

lemma fetchSafetyData_cases:
  "fetchSafetyData env dot =
     (case fetchSafetyFromBackend env dot of
        Inl e \<Rightarrow> (Inl e, [])
      | Inr (Some r) \<Rightarrow> (Inr r, [])
      | Inr None \<Rightarrow>
          (case fetchUrl env (js ''https://ai.fmcsa.dot.gov/SMS/Carrier/'' @ dot @ js ''/CompleteProfile.aspx'') True of
             (Inl e, t) \<Rightarrow> (Inl e, t)
           | (Inr (String h), t) \<Rightarrow> (Inr (safetyFromDocument (parseFromString env h)), t)
           | (Inr _, t) \<Rightarrow> (Inl (Error (js ''Could not fetch safety data'')), t)))"
  by (simp add: fetchSafetyData_def io_defs Let_def split: prod.splits sum.splits jsval.splits option.splits)

lemma fetchSafetyData_throws:
  assumes "fetchSafetyFromBackend env dot = Inr None"
    and "\<forall>h. fst (fetchUrl env (js ''https://ai.fmcsa.dot.gov/SMS/Carrier/'' @ dot @ js ''/CompleteProfile.aspx'') True) \<noteq> Inr (String h)"
  shows "fst (fetchSafetyData env dot) = Inl (Error (js ''Could not fetch safety data''))"
proof -
  obtain v t where f: "fetchUrl env (js ''https://ai.fmcsa.dot.gov/SMS/Carrier/'' @ dot @ js ''/CompleteProfile.aspx'') True = (Inr v, t)"
    using fetchUrl_returns by blast
  with assms(2) have "\<forall>h. v \<noteq> String h" by simp
  with f assms(1) show ?thesis
    by (cases v) (simp_all add: fetchSafetyData_cases)
qed

section \<open>The operations on the service, case by case\<close>

lemma fetchCarriersFromSupabase_cases:
  "fetchCarriersFromSupabase sb filters =
     (case sb (carriersQuery filters) of
        QRejects x \<Rightarrow> (Inr [], [carriersQuery filters])
      | QResolves d e \<Rightarrow>
          if truthy e then (Inr [], [carriersQuery filters])
          else (case mapRows carrierFromRecord (orElse d (Array [])) of
                  Inl x \<Rightarrow> (Inr [], [carriersQuery filters])
                | Inr rows \<Rightarrow> (Inr rows, [carriersQuery filters])))"
  by (simp add: fetchCarriersFromSupabase_def runQuery_def io_defs
      split: query_result.splits sum.splits)

lemma truthy_message: "truthy e \<Longrightarrow> getProp e (js ''message'') = Inr (readProp e ''message'')"
  by (cases e) (simp_all add: readProp_def)

lemma message_cases:
  "message x =
     (if thrownValue x = Null \<or> thrownValue x = Undefined
      then getProp (thrownValue x) (js ''message'')
      else Inr (optChain (thrownValue x) ''message''))"
  by (cases "thrownValue x") (simp_all add: message_def optChain_def)

lemma message_value:
  "thrownValue x \<noteq> Null \<Longrightarrow> thrownValue x \<noteq> Undefined \<Longrightarrow>
   message x = Inr (optChain (thrownValue x) ''message'')"
  by (simp add: message_cases)

lemma message_nullish:
  "thrownValue x = Null \<or> thrownValue x = Undefined \<Longrightarrow> \<exists>e. message x = Inl e"
  by (auto simp: message_def)

lemma carrierRecord_Inl: "carrierRecord carrier = Inl x \<Longrightarrow> \<exists>m. x = TypeError m"
  by (cases carrier) (auto simp: carrierRecord_def)

lemma saveCarrierToSupabase_cases:
  "saveCarrierToSupabase sb carrier =
     (case carrierRecord carrier of
        Inl x \<Rightarrow> (Inr \<lparr>success = False, error = Some (optChain (thrownValue x) ''message'')\<rparr>, [])
      | Inr record \<Rightarrow>
          (case sb [From (js ''carriers''), Upsert record (js ''mc_number'')] of
             QRejects x \<Rightarrow>
               (case message x of
                  Inl e \<Rightarrow> (Inl e, [[From (js ''carriers''), Upsert record (js ''mc_number'')]])
                | Inr m \<Rightarrow>
                    (Inr \<lparr>success = False, error = Some m\<rparr>,
                     [[From (js ''carriers''), Upsert record (js ''mc_number'')]]))
           | QResolves d e \<Rightarrow>
               if truthy e
               then (Inr \<lparr>success = False, error = Some (readProp e ''message'')\<rparr>,
                     [[From (js ''carriers''), Upsert record (js ''mc_number'')]])
               else (Inr \<lparr>success = True, error = None\<rparr>,
                     [[From (js ''carriers''), Upsert record (js ''mc_number'')]])))"
proof (cases "carrierRecord carrier")
  case (Inl x)
  then obtain m where "x = TypeError m" using carrierRecord_Inl by blast
  with Inl show ?thesis
    by (simp add: saveCarrierToSupabase_def io_defs message_def optChain_def)
next
  case (Inr rcd)
  then show ?thesis
    by (simp add: saveCarrierToSupabase_def runQuery_def io_defs truthy_message
        split: query_result.splits sum.splits)
qed

lemma mapE_length: "mapE f xs = Inr ys \<Longrightarrow> length ys = length xs"
  by (induction xs arbitrary: ys) (auto split: sum.splits)

lemma mapE_map: "(\<forall>x\<in>set xs. \<exists>y. f x = Inr y) \<Longrightarrow> mapE f xs = Inr (map (\<lambda>x. projr (f x)) xs)"
  by (induction xs) auto

lemma message_optChain: "message x = Inr m \<Longrightarrow> optChain (thrownValue x) ''message'' = m"
  by (simp add: message_def optChain_def)

lemma message_simple [simp]:
  "message (Error s) = Inr (String s)" "message (TypeError s) = Inr (String s)"
  by (simp_all add: message_def)

lemma mapRows_Inl:
  "mapRows (entryFromItem env) d = Inl x \<Longrightarrow> \<exists>s. x = TypeError s"
proof -
  have e: "\<And>item y. entryFromItem env item = Inl y \<Longrightarrow> \<exists>s. y = TypeError s"
    subgoal for item y by (cases item) (auto simp: entryFromItem_def)
    done
  have m: "\<And>rows. mapE (entryFromItem env) rows = Inl x \<Longrightarrow> \<exists>s. x = TypeError s"
    subgoal for rows
      by (induction rows) (auto split: sum.splits dest: e)
    done
  assume "mapRows (entryFromItem env) d = Inl x"
  then show ?thesis
    by (cases d) (auto simp: mapRows_def dest: m)
qed

lemma fetchRegisterData_cases:
  "fetchRegisterData env st0 =
     (case supabaseClient env registerQuery of
        QRejects x \<Rightarrow>
          (case message x of
             Inl e \<Rightarrow> (Inl e, [registerQuery])
           | Inr m \<Rightarrow> (Inr (failedState env st0 x), [registerQuery]))
      | QResolves d e \<Rightarrow>
          if truthy e then (Inr (failedState env st0 (Thrown e)), [registerQuery])
          else if hasEntries env d then
            (case mapRows (entryFromItem env) d of
               Inl x \<Rightarrow> (Inr (failedState env st0 x), [registerQuery])
             | Inr mapped \<Rightarrow>
                 (Inr (st0\<lparr>isLoading := False, errorBanner := [], registerData := mapped,
                           lastUpdated := nowString env\<rparr>), [registerQuery]))
          else (Inr (failedState env st0 (Error (js ''No entries found in Supabase.''))), [registerQuery]))"
proof (cases "supabaseClient env registerQuery")
  case (QRejects x)
  show ?thesis
  proof (cases "message x")
    case (Inl e)
    with QRejects show ?thesis
      by (simp add: fetchRegisterData_def registerQuery_def runQuery_def io_defs Let_def)
  next
    case (Inr m)
    with QRejects message_optChain [OF Inr] show ?thesis
      by (simp add: fetchRegisterData_def registerQuery_def runQuery_def io_defs Let_def
          loadMockData_def failedState_def)
  qed
next
  case (QResolves d e)
  show ?thesis
  proof (cases "truthy e")
    case True
    then have m: "message (Thrown e) = Inr (readProp e ''message'')"
      by (simp add: message_def truthy_message)
    from QResolves True m message_optChain [OF m] show ?thesis
      by (simp add: fetchRegisterData_def registerQuery_def runQuery_def io_defs Let_def
          loadMockData_def failedState_def)
  next
    case e: False
    show ?thesis
    proof (cases "hasEntries env d")
      case False
      have m: "message (Error (js ''No entries found in Supabase.'')) = Inr (String (js ''No entries found in Supabase.''))"
        by simp
      from QResolves e False m message_optChain [OF m] show ?thesis
        by (simp add: fetchRegisterData_def registerQuery_def runQuery_def io_defs Let_def
            loadMockData_def failedState_def)
    next
      case True
      show ?thesis
      proof (cases "mapRows (entryFromItem env) d")
        case (Inl x)
        then obtain s where "x = TypeError s" using mapRows_Inl by blast
        then have m: "message x = Inr (String s)" by simp
        from QResolves e True Inl m message_optChain [OF m] show ?thesis
          by (simp add: fetchRegisterData_def registerQuery_def runQuery_def io_defs Let_def
              loadMockData_def failedState_def)
      next
        case (Inr mapped)
        with QResolves e True show ?thesis
          by (simp add: fetchRegisterData_def registerQuery_def runQuery_def Let_def io_defs)
      qed
    qed
  qed
qed

lemma saveCarrierToSupabase_returns:
  assumes "rejectsWithValue sb"
  shows "\<exists>r t. saveCarrierToSupabase sb carrier = (Inr r, t)"
proof (cases "carrierRecord carrier")
  case (Inl x)
  then show ?thesis by (simp add: saveCarrierToSupabase_cases)
next
  case (Inr rcd)
  show ?thesis
  proof (cases "sb [From (js ''carriers''), Upsert rcd (js ''mc_number'')]")
    case (QRejects x)
    with assms have "message x = Inr (optChain (thrownValue x) ''message'')"
      by (intro message_value) (auto simp: rejectsWithValue_def)
    with Inr QRejects show ?thesis by (simp add: saveCarrierToSupabase_cases)
  next
    case (QResolves d e)
    with Inr show ?thesis by (simp add: saveCarrierToSupabase_cases)
  qed
qed

lemma fetchCarriersFromSupabase_returns: "\<exists>rows t. fetchCarriersFromSupabase sb filters = (Inr rows, t)"
  by (simp add: fetchCarriersFromSupabase_cases split: sum.splits query_result.splits)

lemma fetchRegisterData_returns:
  assumes "rejectsWithValue (supabaseClient renv)"
  shows "\<exists>st t. fetchRegisterData renv st0 = (Inr st, t)"
proof (cases "supabaseClient renv registerQuery")
  case (QRejects x)
  with assms have "message x = Inr (optChain (thrownValue x) ''message'')"
    by (intro message_value) (auto simp: rejectsWithValue_def)
  with QRejects show ?thesis by (simp add: fetchRegisterData_cases)
next
  case (QResolves d e)
  then show ?thesis by (simp add: fetchRegisterData_cases split: sum.splits)
qed

lemma failedState_mock: "registerData (failedState renv st0 x) = mockData"
  by (simp add: failedState_def)

section \<open>The sample pages, evaluated\<close>

lemma find_first:
  "(\<forall>x\<in>set pre. \<not> P x) \<Longrightarrow> P y \<Longrightarrow> find P (pre @ y # post) = Some y"
  by (induction pre) auto

lemma find_none: "(\<forall>x\<in>set xs. \<not> P x) \<Longrightarrow> find P xs = None"
  by (induction xs) auto

lemma snapshotThs_eval:
  "map (\<lambda>th. (textContent (self th), map_option (\<lambda>c. textContent (self c)) (nextElementSibling th))) snapshotThs =
     [(js ''Legal Name:'', Some (js ''ACME  TRUCKING LLC'')),
      (js ''USDOT Number:'', Some (js ''7654321'')),
      (js ''Phone:'', None)]"
  by (simp add: snapshotThs_def docQuerySelectorAll_def snapshotDoc_def nextElementSibling_def js_def)

lemma snapshot_clean:
  "cleanText (Some (js ''Legal Name:'')) = js ''Legal Name:''"
  "cleanText (Some (js ''USDOT Number:'')) = js ''USDOT Number:''"
  "cleanText (Some (js ''Phone:'')) = js ''Phone:''"
  "cleanText (Some (js ''ACME  TRUCKING LLC'')) = js ''ACME TRUCKING LLC''"
  "cleanText (Some (js ''7654321'')) = js ''7654321''"
  by (simp_all add: cleanText_def js_def replaceAllChar_def trim_def isWhiteSpace_def)

lemma snapshot_includes:
  "includesStr (js ''Legal Name:'') (js ''Legal Name:'')"
  "\<not> includesStr (js ''Legal Name:'') (js ''Phone:'')"
  "\<not> includesStr (js ''USDOT Number:'') (js ''Phone:'')"
  "includesStr (js ''Phone:'') (js ''Phone:'')"
  "\<not> includesStr (js ''Legal Name:'') (js ''Zip Code:'')"
  "\<not> includesStr (js ''USDOT Number:'') (js ''Zip Code:'')"
  "\<not> includesStr (js ''Phone:'') (js ''Zip Code:'')"
  "\<not> includesStr (js ''Legal Name:'') (js ''USDOT Number:'')"
  "includesStr (js ''USDOT Number:'') (js ''USDOT Number:'')"
  by (simp_all add: js_def)

lemma snapshotThs_cells:
  obtains th1 th2 th3 c1 c2 where
    "snapshotThs = [th1, th2, th3]"
    "textContent (self th1) = js ''Legal Name:''" "nextElementSibling th1 = Some c1"
    "textContent (self c1) = js ''ACME  TRUCKING LLC''"
    "textContent (self th2) = js ''USDOT Number:''" "nextElementSibling th2 = Some c2"
    "textContent (self c2) = js ''7654321''"
    "textContent (self th3) = js ''Phone:''" "nextElementSibling th3 = None"
  using snapshotThs_eval by (auto simp: map_eq_Cons_conv)

lemma env_snapshot_innerText: "innerText env_snapshot = (\<lambda>e. textContent (self e))"
  by (simp add: env_snapshot_def env_offline_def env_direct_down_def)















section \<open>The records written and read\<close>

lemma js_eq_iff [simp]: "js a = js b \<longleftrightarrow> a = b"
proof -
  have inj: "\<And>x y. (word_of_nat (of_char x) :: 16 word) = word_of_nat (of_char y) \<Longrightarrow> x = y"
  proof -
    fix x y :: char
    assume a: "(word_of_nat (of_char x) :: 16 word) = word_of_nat (of_char y)"
    have lt: "\<And>c :: char. (of_char c :: nat) < 2 ^ 16"
    proof -
      fix c :: char
      have "(of_char c :: nat) mod 256 = of_char c" by simp
      then have "(of_char c :: nat) < 256" by (metis mod_less_divisor zero_less_numeral)
      then show "(of_char c :: nat) < 2 ^ 16" by (rule less_trans) simp
    qed
    have "unat (word_of_nat (of_char x) :: 16 word) = of_char x"
      "unat (word_of_nat (of_char y) :: 16 word) = of_char y"
      using lt by (simp_all add: unat_of_nat take_bit_nat_eq_self)
    with a have "(of_char x :: nat) = of_char y" by metis
    then show "x = y" by simp
  qed
  show ?thesis
  proof
    assume "js a = js b"
    then show "a = b"
      unfolding js_def by (induction a arbitrary: b) (auto dest: inj)
  qed simp
qed

lemma carrierRecord_object:
  assumes "carrier \<noteq> Undefined" "carrier \<noteq> Null"
  shows "\<exists>props. carrierRecord carrier = Inr (Object props)"
  using assms by (cases carrier) (simp_all add: carrierRecord_def)

lemma getProp_readProp:
  "carrier \<noteq> Undefined \<Longrightarrow> carrier \<noteq> Null \<Longrightarrow> getProp carrier (js n) = Inr (readProp carrier n)"
  by (cases carrier) (simp_all add: readProp_def)

lemma carrierRecord_eq:
  assumes "carrier \<noteq> Undefined" "carrier \<noteq> Null"
  shows "carrierRecord carrier = Inr (Object
            [(js ''mc_number'', readProp carrier ''mcNumber''),
             (js ''dot_number'', readProp carrier ''dotNumber''),
             (js ''legal_name'', readProp carrier ''legalName''),
             (js ''dba_name'', orElse (readProp carrier ''dbaName'') Null),
             (js ''entity_type'', readProp carrier ''entityType''),
             (js ''status'', readProp carrier ''status''),
             (js ''email'', orElse (readProp carrier ''email'') Null),
             (js ''phone'', orElse (readProp carrier ''phone'') Null),
             (js ''power_units'', orElse (readProp carrier ''powerUnits'') Null),
             (js ''drivers'', orElse (readProp carrier ''drivers'') Null),
             (js ''non_cmv_units'', orElse (readProp carrier ''nonCmvUnits'') Null),
             (js ''physical_address'', orElse (readProp carrier ''physicalAddress'') Null),
             (js ''mailing_address'', orElse (readProp carrier ''mailingAddress'') Null),
             (js ''date_scraped'', readProp carrier ''dateScraped''),
             (js ''mcs150_date'', orElse (readProp carrier ''mcs150Date'') Null),
             (js ''mcs150_mileage'', orElse (readProp carrier ''mcs150Mileage'') Null),
             (js ''operation_classification'', orElse (readProp carrier ''operationClassification'') (Array [])),
             (js ''carrier_operation'', orElse (readProp carrier ''carrierOperation'') (Array [])),
             (js ''cargo_carried'', orElse (readProp carrier ''cargoCarried'') (Array [])),
             (js ''out_of_service_date'', orElse (readProp carrier ''outOfServiceDate'') Null),
             (js ''state_carrier_id'', orElse (readProp carrier ''stateCarrierId'') Null),
             (js ''duns_number'', orElse (readProp carrier ''dunsNumber'') Null),
             (js ''safety_rating'', orElse (readProp carrier ''safetyRating'') Null),
             (js ''safety_rating_date'', orElse (readProp carrier ''safetyRatingDate'') Null),
             (js ''basic_scores'', orElse (readProp carrier ''basicScores'') Null),
             (js ''oos_rates'', orElse (readProp carrier ''oosRates'') Null),
             (js ''insurance_policies'', orElse (readProp carrier ''insurancePolicies'') Null)])"
  unfolding carrierRecord_def getProp_readProp [OF assms] by simp

lemma carrierRecord_optional:
  assumes "carrier \<noteq> Undefined" "carrier \<noteq> Null" "carrierRecord carrier = Inr record"
  shows "\<forall>(c, s) \<in> set optionalFields.
           stored record s = Some (if truthy (readProp carrier c) then readProp carrier c else Null)"
proof -
  have r: "record = projr (carrierRecord carrier)" using assms(3) by simp
  show ?thesis
    unfolding r carrierRecord_eq [OF assms(1,2)]
    by (simp add: optionalFields_def stored_def orElse_def)
qed

lemma carrierRecord_lists:
  assumes "carrier \<noteq> Undefined" "carrier \<noteq> Null" "carrierRecord carrier = Inr record"
  shows "\<forall>(c, s) \<in> set listFields.
           stored record s = Some (if truthy (readProp carrier c) then readProp carrier c else Array [])"
proof -
  have r: "record = projr (carrierRecord carrier)" using assms(3) by simp
  show ?thesis
    unfolding r carrierRecord_eq [OF assms(1,2)]
    by (simp add: listFields_def stored_def orElse_def)
qed

lemma carrierFromRecord_eq:
  assumes "record \<noteq> Undefined" "record \<noteq> Null"
  shows "carrierFromRecord record = Inr (Object
            [(js ''mcNumber'', readProp record ''mc_number''),
             (js ''dotNumber'', readProp record ''dot_number''),
             (js ''legalName'', readProp record ''legal_name''),
             (js ''dbaName'', readProp record ''dba_name''),
             (js ''entityType'', readProp record ''entity_type''),
             (js ''status'', readProp record ''status''),
             (js ''email'', readProp record ''email''),
             (js ''phone'', readProp record ''phone''),
             (js ''powerUnits'', readProp record ''power_units''),
             (js ''drivers'', readProp record ''drivers''),
             (js ''nonCmvUnits'', readProp record ''non_cmv_units''),
             (js ''physicalAddress'', readProp record ''physical_address''),
             (js ''mailingAddress'', readProp record ''mailing_address''),
             (js ''dateScraped'', readProp record ''date_scraped''),
             (js ''mcs150Date'', readProp record ''mcs150_date''),
             (js ''mcs150Mileage'', readProp record ''mcs150_mileage''),
             (js ''operationClassification'', orElse (readProp record ''operation_classification'') (Array [])),
             (js ''carrierOperation'', orElse (readProp record ''carrier_operation'') (Array [])),
             (js ''cargoCarried'', orElse (readProp record ''cargo_carried'') (Array [])),
             (js ''outOfServiceDate'', readProp record ''out_of_service_date''),
             (js ''stateCarrierId'', readProp record ''state_carrier_id''),
             (js ''dunsNumber'', readProp record ''duns_number''),
             (js ''safetyRating'', readProp record ''safety_rating''),
             (js ''safetyRatingDate'', readProp record ''safety_rating_date''),
             (js ''basicScores'', readProp record ''basic_scores''),
             (js ''oosRates'', readProp record ''oos_rates''),
             (js ''insurancePolicies'', readProp record ''insurance_policies'')])"
  unfolding carrierFromRecord_def getProp_readProp [OF assms] by simp

lemma carrierFromRecord_lists:
  assumes "row \<noteq> Undefined" "row \<noteq> Null" "carrierFromRecord row = Inr out"
  shows "\<forall>(c, s) \<in> set listFields.
           stored out c = Some (if truthy (readProp row s) then readProp row s else Array [])"
proof -
  have r: "out = projr (carrierFromRecord row)" using assms(3) by simp
  show ?thesis
    unfolding r carrierFromRecord_eq [OF assms(1,2)]
    by (simp add: listFields_def stored_def orElse_def)
qed

lemma carrierFromRecord_returns:
  "row \<noteq> Undefined \<Longrightarrow> row \<noteq> Null \<Longrightarrow> \<exists>out. carrierFromRecord row = Inr out"
  by (simp add: carrierFromRecord_eq)

lemma saveCarrierToSupabase_trace:
  "carrierRecord carrier = Inr record \<Longrightarrow>
   snd (saveCarrierToSupabase sb carrier) = [[From (js ''carriers''), Upsert record (js ''mc_number'')]]"
  by (simp add: saveCarrierToSupabase_cases split: query_result.splits sum.splits)

lemma fetchCarriers_rows:
  assumes "sb (carriersQuery filters) = QResolves (Array rows) e" "\<not> truthy e"
    and "\<forall>r\<in>set rows. r \<noteq> Undefined \<and> r \<noteq> Null"
  shows "fetchCarriersFromSupabase sb filters =
           (Inr (map (\<lambda>r. projr (carrierFromRecord r)) rows), [carriersQuery filters])"
proof -
  have "\<forall>r\<in>set rows. \<exists>y. carrierFromRecord r = Inr y"
    using assms(3) carrierFromRecord_returns by blast
  then have "mapE carrierFromRecord rows = Inr (map (\<lambda>r. projr (carrierFromRecord r)) rows)"
    by (rule mapE_map)
  then show ?thesis
    using assms(1,2) by (simp add: fetchCarriersFromSupabase_cases orElse_def mapRows_def)
qed

lemma carriersQuery_split:
  "\<exists>pre. carriersQuery filters =
     pre @ [Order (js ''created_at'') False,
            Limit (if givenNumber (limit filters) then the (limit filters) else Num 200)]"
  by (auto simp: carriersQuery_def givenNumber_def split: option.splits)

lemma fetchCarriers_length:
  assumes "fetchCarriersFromSupabase sb filters = (Inr result, t)"
    and "\<forall>rows e. sb (carriersQuery filters) = QResolves (Array rows) e \<longrightarrow> int (length rows) \<le> k"
  shows "int (length result) \<le> max 0 k"
proof (cases "sb (carriersQuery filters)")
  case (QRejects x)
  with assms(1) show ?thesis by (simp add: fetchCarriersFromSupabase_cases)
next
  case (QResolves d e)
  show ?thesis
  proof (cases "truthy e")
    case True
    with QResolves assms(1) show ?thesis by (simp add: fetchCarriersFromSupabase_cases)
  next
    case False
    show ?thesis
    proof (cases "mapRows carrierFromRecord (orElse d (Array []))")
      case (Inl x)
      with False QResolves assms(1) show ?thesis by (simp add: fetchCarriersFromSupabase_cases)
    next
      case (Inr rs)
      with False QResolves assms(1) have res: "result = rs"
        by (simp add: fetchCarriersFromSupabase_cases)
      show ?thesis
      proof (cases "truthy d")
        case True
        with Inr obtain rows where d: "d = Array rows" and m: "mapE carrierFromRecord rows = Inr rs"
          by (cases d) (simp_all add: mapRows_def orElse_def)
        from m have "length rs = length rows" by (rule mapE_length)
        moreover from assms(2) QResolves d have "int (length rows) \<le> k" by simp
        ultimately show ?thesis using res by simp
      next
        case False
        with Inr have "rs = []" by (simp add: mapRows_def orElse_def)
        with res show ?thesis by simp
      qed
    qed
  qed
qed

section \<open>The handlers of the register page, case by case\<close>

lemma andThen_case:
  "andThen (x, t) f = (case x of Inl e \<Rightarrow> (Inl e, t) | Inr v \<Rightarrow> (fst (f v), t @ snd (f v)))"
  by (cases x) simp_all

lemma tryCatch_case:
  "tryCatch (x, t) h = (case x of Inl e \<Rightarrow> (fst (h e), t @ snd (h e)) | Inr v \<Rightarrow> (Inr v, t))"
  by (cases x) simp_all

lemmas page_defs = invoke_def io_defs Let_def andThen_case tryCatch_case

lemma fetchRecords_returns: "\<exists>st t. fetchRecords env snap st0 = (Inr st, t)"
  by (simp add: fetchRecords_def page_defs split: api_result.splits sum.splits)

lemma fetchRecords_failure:
  assumes "truthy (selectedDate snap)"
    and "apiCall env (Request (js ''/api/v1/fmcsa/records'') (js ''GET'') (recordsParams snap)) = ARejects x"
  shows "fst (fetchRecords env snap st0) =
           Inr (st0\<lparr>pageIsLoading := False, records := Array [], totalRecords := Number (Num 0)\<rparr>)"
  using assms by (simp add: fetchRecords_def invoke_def Let_def io_defs)

lemma fetchAvailableDates_returns: "\<exists>st t. fetchAvailableDates env snap st0 = (Inr st, t)"
  by (simp add: fetchAvailableDates_def page_defs split: api_result.splits sum.splits option.splits)

lemma fetchAvailableDates_failure:
  assumes "apiCall env (Request (js ''/api/v1/fmcsa/dates'') (js ''GET'') (Object [])) = ARejects x"
  shows "fst (fetchAvailableDates env snap st0) =
           Inr (st0\<lparr>isLoadingDates := False,
                    toasts := toasts st0 @ [(js ''error'', String (js ''Failed to fetch available dates''))]\<rparr>)"
  using assms by (simp add: fetchAvailableDates_def invoke_def Let_def io_defs toast_def)

lemma handleScrape_returns: "\<exists>st t. handleScrape env snap st0 = (Inr st, t)"
proof -
  have c: "\<And>s. \<exists>st t. fetchRecords env snap s = (Inr st, t)"
    by (rule fetchRecords_returns)
  have d: "\<And>s h x. fst (tryCatch (fetchRecords env snap s) h) \<noteq> Inl x"
  proof -
    fix s h x
    obtain st t where "fetchRecords env snap s = (Inr st, t)" using c by blast
    then show "fst (tryCatch (fetchRecords env snap s) h) \<noteq> Inl x" by simp
  qed
  show ?thesis
    by (simp add: d handleScrape_def invoke_def io_defs Let_def andThen_case
        split: api_result.splits sum.splits bool.splits prod.splits)
qed

lemma handleScrape_failure:
  assumes "truthy (selectedDate snap)"
    and "apiCall env (Request (js ''/api/v1/fmcsa/scrape'') (js ''POST'')
            (Object [(js ''pd_date'', selectedDate snap)])) = ARejects x"
  shows "fst (handleScrape env snap st0) =
           Inr (st0\<lparr>isScraping := False,
                    toasts := toasts st0 @ [(js ''error'', scrapeFailureDetail x)]\<rparr>)"
  using assms by (simp add: handleScrape_def invoke_def Let_def io_defs toast_def)

section \<open>The proxy chain of fetchUrl\<close>

text \<open>
  Claim C3, as stated, fails: when \<^verbatim>\<open>useProxy\<close> is false and the direct request throws,
  \<^verbatim>\<open>fetchUrl\<close> returns null at once. In the environment below the direct request is
  refused and only that one request is sent, although the first proxy would have answered.
\<close>

theorem fetchUrl_direct_throw_counterexample:
  "fetchUrl env_direct_down (js ''example.com'') False = (Inr Null, [js ''example.com'']) \<and>
   fetchUrl env_direct_down (js ''example.com'') True =
     (Inr (String (js ''page'')), [js ''https://api.allorigins.win/raw?url='' @ js ''example.com''])"
  by (simp add: fetchUrl_cases fixture_simps proxyLoop_chain [of env_direct_down, OF example_enc [folded fixture_simps(3)]]
      proxyAnswer_def proxy_neq_example htmlPage_def)

text \<open>
  Claim C3, amended. When the direct request is skipped (\<^verbatim>\<open>useProxy\<close>) or is answered by a
  response that is not ok, \<^verbatim>\<open>fetchUrl\<close> tries the allorigins proxy and then the codetabs
  proxy, returns the first answer, and returns null when both attempts fail. When the
  direct request throws, it returns null without trying a proxy; when the direct response
  is ok, it returns that body, or null when the body cannot be read or parsed.
\<close>

theorem fetchUrl_chain:
  "(encodeURIComponent env u = Some e \<and> (useProxy \<or> (\<exists>r. fetch env u = Resolves r \<and> \<not> ok r)) \<longrightarrow>
      fetchUrl env u useProxy =
        (Inr (case proxyAnswer env (js ''https://api.allorigins.win/raw?url='' @ e) of
                Some v \<Rightarrow> v
              | None \<Rightarrow>
                  (case proxyAnswer env (js ''https://api.codetabs.com/v1/proxy?quest='' @ e) of
                     Some v \<Rightarrow> v
                   | None \<Rightarrow> Null)),
         (if useProxy then [] else [u])
         @ (case proxyAnswer env (js ''https://api.allorigins.win/raw?url='' @ e) of
              Some v \<Rightarrow> [js ''https://api.allorigins.win/raw?url='' @ e]
            | None \<Rightarrow> [js ''https://api.allorigins.win/raw?url='' @ e,
                         js ''https://api.codetabs.com/v1/proxy?quest='' @ e]))) \<and>
   (\<not> useProxy \<and> fetch env u = Rejects \<longrightarrow> fetchUrl env u useProxy = (Inr Null, [u])) \<and>
   (\<not> useProxy \<and> (\<exists>r. fetch env u = Resolves r \<and> ok r) \<longrightarrow>
      fetchUrl env u useProxy = (Inr (case directAnswer env u of Some v \<Rightarrow> v | None \<Rightarrow> Null), [u]))"
proof (intro conjI impI)
  assume a: "encodeURIComponent env u = Some e \<and> (useProxy \<or> (\<exists>r. fetch env u = Resolves r \<and> \<not> ok r))"
  then have enc: "encodeURIComponent env u = Some e" by simp
  show "fetchUrl env u useProxy =
        (Inr (case proxyAnswer env (js ''https://api.allorigins.win/raw?url='' @ e) of
                Some v \<Rightarrow> v
              | None \<Rightarrow>
                  (case proxyAnswer env (js ''https://api.codetabs.com/v1/proxy?quest='' @ e) of
                     Some v \<Rightarrow> v
                   | None \<Rightarrow> Null)),
         (if useProxy then [] else [u])
         @ (case proxyAnswer env (js ''https://api.allorigins.win/raw?url='' @ e) of
              Some v \<Rightarrow> [js ''https://api.allorigins.win/raw?url='' @ e]
            | None \<Rightarrow> [js ''https://api.allorigins.win/raw?url='' @ e,
                         js ''https://api.codetabs.com/v1/proxy?quest='' @ e]))"
  proof (cases useProxy)
    case True
    then show ?thesis
      by (simp add: fetchUrl_cases proxyLoop_chain [OF enc] split: option.splits)
  next
    case False
    with a obtain r where "fetch env u = Resolves r" "\<not> ok r" by blast
    with False show ?thesis
      by (simp add: fetchUrl_cases proxyLoop_chain [OF enc] split: option.splits)
  qed
next
  assume "\<not> useProxy \<and> fetch env u = Rejects"
  then show "fetchUrl env u useProxy = (Inr Null, [u])"
    by (simp add: fetchUrl_cases)
next
  assume "\<not> useProxy \<and> (\<exists>r. fetch env u = Resolves r \<and> ok r)"
  then show "fetchUrl env u useProxy = (Inr (case directAnswer env u of Some v \<Rightarrow> v | None \<Rightarrow> Null), [u])"
    by (auto simp: fetchUrl_cases)
qed

theorem fetchUrl_chain_witness:
  "fetchUrl env_direct_down (js ''example.com'') True =
     (Inr (String (js ''page'')), [js ''https://api.allorigins.win/raw?url='' @ js ''example.com'']) \<and>
   fetchUrl env_offline (js ''example.com'') False = (Inr Null, [js ''example.com'']) \<and>
   fetchUrl env_direct_ok (js ''example.com'') False = (Inr (String (js ''direct'')), [js ''example.com''])"
proof -
  have 1: "encodeURIComponent env_direct_down (js ''example.com'') = Some (js ''example.com'')"
    by (simp add: fixture_simps example_enc)
  have 2: "fetch env_offline (js ''example.com'') = Rejects"
    by (simp add: fixture_simps)
  have 3: "\<exists>r. fetch env_direct_ok (js ''example.com'') = Resolves r \<and> ok r"
    by (simp add: fixture_simps htmlPage_def)
  have 4: "directAnswer env_direct_ok (js ''example.com'') = Some (String (js ''direct''))"
    by (simp add: directAnswer_def fixture_simps htmlPage_def js_def)
  have 5: "proxyAnswer env_direct_down (js ''https://api.allorigins.win/raw?url='' @ js ''example.com'')
      = Some (String (js ''page''))"
    by (simp add: proxyAnswer_def fixture_simps htmlPage_def proxy_neq_example)
  from fetchUrl_chain [of env_direct_down "js ''example.com''" "js ''example.com''" True]
    fetchUrl_chain [of env_offline "js ''example.com''" e False]
    fetchUrl_chain [of env_direct_ok "js ''example.com''" e False]
    1 2 3 4 5
  show ?thesis by simp
qed

section \<open>The backend comes first\<close>

text \<open>
  Claim C5. \<^verbatim>\<open>scrapeRealCarrier\<close> and \<^verbatim>\<open>fetchSafetyData\<close> ask the backend first and return
  its result whenever it yields one, without sending any request of the fallback; a
  request of the fallback is sent only when the backend yielded nothing.
\<close>

theorem backend_first:
  "(fetchCarrierFromBackend env mc = Inr (Some c) \<longrightarrow>
      scrapeRealCarrier env mc useProxy = (Inr (Some c), [])) \<and>
   (fetchSafetyFromBackend env dot = Inr (Some s) \<longrightarrow> fetchSafetyData env dot = (Inr s, [])) \<and>
   (snd (scrapeRealCarrier env mc useProxy) \<noteq> [] \<longrightarrow> fetchCarrierFromBackend env mc = Inr None) \<and>
   (snd (fetchSafetyData env dot) \<noteq> [] \<longrightarrow> fetchSafetyFromBackend env dot = Inr None)"
proof (intro conjI impI)
  assume "fetchCarrierFromBackend env mc = Inr (Some c)"
  then show "scrapeRealCarrier env mc useProxy = (Inr (Some c), [])"
    by (simp add: scrapeRealCarrier_cases)
next
  assume "fetchSafetyFromBackend env dot = Inr (Some s)"
  then show "fetchSafetyData env dot = (Inr s, [])"
    by (simp add: fetchSafetyData_cases)
next
  assume a: "snd (scrapeRealCarrier env mc useProxy) \<noteq> []"
  show "fetchCarrierFromBackend env mc = Inr None"
  proof (cases "fetchCarrierFromBackend env mc")
    case (Inl x)
    with a show ?thesis by (simp add: scrapeRealCarrier_cases)
  next
    case (Inr b)
    with a show ?thesis by (cases b) (simp_all add: scrapeRealCarrier_cases)
  qed
next
  assume a: "snd (fetchSafetyData env dot) \<noteq> []"
  show "fetchSafetyFromBackend env dot = Inr None"
  proof (cases "fetchSafetyFromBackend env dot")
    case (Inl x)
    with a show ?thesis by (simp add: fetchSafetyData_cases)
  next
    case (Inr b)
    with a show ?thesis by (cases b) (simp_all add: fetchSafetyData_cases)
  qed
qed

lemma backend_hit_simps:
  "fetchCarrierFromBackend env_backend_hit = (\<lambda>mc. Inr (Some sampleCarrier))"
  "fetchSafetyFromBackend env_backend_hit = (\<lambda>dot. Inr (Some sampleSafety))"
  by (simp_all add: env_backend_hit_def)

theorem backend_first_witness:
  "scrapeRealCarrier env_backend_hit (js ''123456'') True = (Inr (Some sampleCarrier), []) \<and>
   fetchSafetyData env_backend_hit (js ''7654321'') = (Inr sampleSafety, []) \<and>
   snd (scrapeRealCarrier env_offline (js ''123456'') False) = [carrierSnapshotUrl (js ''123456'')] \<and>
   fetchCarrierFromBackend env_offline (js ''123456'') = Inr None \<and>
   snd (fetchSafetyData env_offline (js ''7654321'')) \<noteq> [] \<and>
   fetchSafetyFromBackend env_offline (js ''7654321'') = Inr None"
proof -
  have 1: "fetchCarrierFromBackend env_backend_hit (js ''123456'') = Inr (Some sampleCarrier)"
    and 2: "fetchSafetyFromBackend env_backend_hit (js ''7654321'') = Inr (Some sampleSafety)"
    by (simp_all add: backend_hit_simps)
  have 3: "snd (scrapeRealCarrier env_offline (js ''123456'') False) = [carrierSnapshotUrl (js ''123456'')]"
    by (simp add: scrapeRealCarrier_cases fetchUrl_cases fixture_simps)
  have "\<exists>e. encodeURIComponent env_offline
      (js ''https://ai.fmcsa.dot.gov/SMS/Carrier/'' @ js ''7654321'' @ js ''/CompleteProfile.aspx'') = Some e"
    by (simp add: fixture_simps encodeAscii_def js_def)
  then obtain e where "encodeURIComponent env_offline
      (js ''https://ai.fmcsa.dot.gov/SMS/Carrier/'' @ js ''7654321'' @ js ''/CompleteProfile.aspx'') = Some e"
    by blast
  then have 4: "snd (fetchSafetyData env_offline (js ''7654321'')) \<noteq> []"
    by (simp add: fetchSafetyData_cases fetchUrl_cases proxyLoop_chain proxyAnswer_def fixture_simps)
  from backend_first [of env_backend_hit "js ''123456''" sampleCarrier True "js ''7654321''" sampleSafety]
    backend_first [of env_offline "js ''123456''" c False "js ''7654321''" s]
    1 2 3 4
  show ?thesis by simp
qed

section \<open>The label-based lookup\<close>

text \<open>
  Claim C7. \<^verbatim>\<open>findValueByLabel\<close> returns the cleaned text of the element that follows the
  first \<^verbatim>\<open>th\<close> cell (in document order) whose cleaned text contains the label; it returns
  the empty string when no \<^verbatim>\<open>th\<close> cell contains the label and when that first cell has no
  following element. The text of the following cell is its \<^verbatim>\<open>innerText\<close>, or its
  \<^verbatim>\<open>textContent\<close> when the former is empty.
\<close>

theorem findValueByLabel_first_match:
  assumes "ths = docQuerySelectorAll doc (Simple (Tag (js ''th'')))"
  shows
    "((\<forall>th\<in>set ths. \<not> includesStr (cleanText (Some (textContent (self th)))) label) \<longrightarrow>
        findValueByLabel env doc label = []) \<and>
     (ths = pre @ th # post \<and>
      (\<forall>x\<in>set pre. \<not> includesStr (cleanText (Some (textContent (self x)))) label) \<and>
      includesStr (cleanText (Some (textContent (self th)))) label \<longrightarrow>
        findValueByLabel env doc label =
          (case nextElementSibling th of
             None \<Rightarrow> []
           | Some cell \<Rightarrow>
               cleanText (Some (if innerText env cell \<noteq> [] then innerText env cell
                                else textContent (self cell)))))"
proof (intro conjI impI)
  assume "\<forall>th\<in>set ths. \<not> includesStr (cleanText (Some (textContent (self th)))) label"
  then have "find (\<lambda>th. includesStr (cleanText (Some (textContent (self th)))) label) ths = None"
    by (rule find_none)
  then show "findValueByLabel env doc label = []"
    by (simp add: findValueByLabel_def assms Let_def)
next
  assume a: "ths = pre @ th # post \<and>
      (\<forall>x\<in>set pre. \<not> includesStr (cleanText (Some (textContent (self x)))) label) \<and>
      includesStr (cleanText (Some (textContent (self th)))) label"
  then have "find (\<lambda>th. includesStr (cleanText (Some (textContent (self th)))) label) (pre @ th # post)
      = Some th"
    by (intro find_first) simp_all
  with a have "find (\<lambda>th. includesStr (cleanText (Some (textContent (self th)))) label) ths = Some th"
    by simp
  then show "findValueByLabel env doc label =
          (case nextElementSibling th of
             None \<Rightarrow> []
           | Some cell \<Rightarrow>
               cleanText (Some (if innerText env cell \<noteq> [] then innerText env cell
                                else textContent (self cell))))"
    by (simp add: findValueByLabel_def assms [symmetric] Let_def split: option.splits)
qed

theorem findValueByLabel_first_match_witness:
  "findValueByLabel env_snapshot snapshotDoc (js ''Legal Name:'') = js ''ACME TRUCKING LLC'' \<and>
   findValueByLabel env_snapshot snapshotDoc (js ''Phone:'') = [] \<and>
   findValueByLabel env_snapshot snapshotDoc (js ''Zip Code:'') = []"
proof -
  obtain th1 th2 th3 c1 c2 where ths: "snapshotThs = [th1, th2, th3]"
    and t1: "textContent (self th1) = js ''Legal Name:''" and n1: "nextElementSibling th1 = Some c1"
    and c1: "textContent (self c1) = js ''ACME  TRUCKING LLC''"
    and t2: "textContent (self th2) = js ''USDOT Number:''"
    and t3: "textContent (self th3) = js ''Phone:''" and n3: "nextElementSibling th3 = None"
    by (rule snapshotThs_cells)
  have 1: "findValueByLabel env_snapshot snapshotDoc (js ''Legal Name:'') = js ''ACME TRUCKING LLC''"
    using findValueByLabel_first_match [where ths = snapshotThs and doc = snapshotDoc and pre = "[]"
        and th = th1 and post = "[th2, th3]" and label = "js ''Legal Name:''" and env = env_snapshot]
    by (simp add: snapshotThs_def [symmetric] ths t1 n1 c1 snapshot_clean snapshot_includes
        env_snapshot_innerText)
  have 2: "findValueByLabel env_snapshot snapshotDoc (js ''Phone:'') = []"
    using findValueByLabel_first_match [where ths = snapshotThs and doc = snapshotDoc and pre = "[th1, th2]"
        and th = th3 and post = "[]" and label = "js ''Phone:''" and env = env_snapshot]
    by (simp add: snapshotThs_def [symmetric] ths t1 t2 t3 n3 snapshot_clean snapshot_includes)
  have 3: "findValueByLabel env_snapshot snapshotDoc (js ''Zip Code:'') = []"
    using findValueByLabel_first_match [where ths = snapshotThs and doc = snapshotDoc
        and label = "js ''Zip Code:''" and env = env_snapshot]
    by (simp add: snapshotThs_def [symmetric] ths t1 t2 t3 snapshot_clean snapshot_includes)
  from 1 2 3 show ?thesis by simp
qed

section \<open>The scraping fallback of scrapeRealCarrier\<close>




section \<open>What a failed fetch gives\<close>

text \<open>
  Claim C1, as stated, fails for \<^verbatim>\<open>fetchSafetyData\<close>: when the backend has nothing and no
  proxy delivers a page, line 92 throws, and the caller gets the exception.
\<close>

theorem fetchSafetyData_throws_counterexample:
  "fst (fetchSafetyData env_offline (js ''7654321'')) = Inl (Error (js ''Could not fetch safety data''))"
  by (rule fetchSafetyData_throws) (simp_all add: fixture_simps fetchUrl_offline)

text \<open>
  Claim C1, amended. Every fetch or scrape operation other than \<^verbatim>\<open>fetchSafetyData\<close> keeps
  its failures to itself: \<^verbatim>\<open>fetchUrl\<close>, \<^verbatim>\<open>fetchCarrierEmailFromSMS\<close>,
  \<^verbatim>\<open>fetchCarriersFromSupabase\<close> and the handlers \<^verbatim>\<open>fetchAvailableDates\<close>, \<^verbatim>\<open>fetchRecords\<close>
  and \<^verbatim>\<open>handleScrape\<close> of the register page never pass an exception to their caller;
  neither does \<^verbatim>\<open>scrapeRealCarrier\<close> as long as the backend call itself does not throw, nor
  \<^verbatim>\<open>saveCarrierToSupabase\<close> and \<^verbatim>\<open>fetchRegisterData\<close> as long as the service rejects with a
  value other than null and undefined (their \<^verbatim>\<open>catch\<close> blocks read \<^verbatim>\<open>err.message\<close>). When
  every request fails they give null, the empty string, null, the empty array and the mock
  data; \<^verbatim>\<open>fetchRecords\<close> empties the records, and the other two handlers show an error
  message and leave the data as they were. \<^verbatim>\<open>fetchSafetyData\<close> is the exception: with
  nothing from the backend and no page from the proxies it throws
  \<^verbatim>\<open>Error("Could not fetch safety data")\<close>.
\<close>

theorem failures_absorbed:
  "(\<exists>v t. fetchUrl env u useProxy = (Inr v, t)) \<and>
   (\<exists>v t. fetchCarrierEmailFromSMS env d useProxy = (Inr v, t)) \<and>
   (fetchCarrierFromBackend env mc = Inr b \<longrightarrow> (\<exists>v t. scrapeRealCarrier env mc useProxy = (Inr v, t))) \<and>
   (\<exists>rows t. fetchCarriersFromSupabase sb filters = (Inr rows, t)) \<and>
   (rejectsWithValue sb \<longrightarrow> (\<exists>r t. saveCarrierToSupabase sb carrier = (Inr r, t))) \<and>
   (rejectsWithValue (supabaseClient renv) \<longrightarrow> (\<exists>st t. fetchRegisterData renv st0 = (Inr st, t))) \<and>
   (\<exists>st t. fetchAvailableDates penv snap ps = (Inr st, t)) \<and>
   (\<exists>st t. fetchRecords penv snap ps = (Inr st, t)) \<and>
   (\<exists>st t. handleScrape penv snap ps = (Inr st, t)) \<and>
   ((\<forall>x. fetch env x = Rejects) \<longrightarrow>
      fst (fetchUrl env u useProxy) = Inr Null \<and>
      fst (fetchCarrierEmailFromSMS env d useProxy) = Inr [] \<and>
      (fetchCarrierFromBackend env mc = Inr None \<longrightarrow> fst (scrapeRealCarrier env mc useProxy) = Inr None)) \<and>
   ((\<exists>x. sb (carriersQuery filters) = QRejects x) \<or>
    (\<exists>dd e. sb (carriersQuery filters) = QResolves dd e \<and> truthy e) \<longrightarrow>
      fst (fetchCarriersFromSupabase sb filters) = Inr []) \<and>
   (rejectsWithValue (supabaseClient renv) \<and>
    ((\<exists>x. supabaseClient renv registerQuery = QRejects x) \<or>
     (\<exists>dd e. supabaseClient renv registerQuery = QResolves dd e \<and> (truthy e \<or> \<not> hasEntries renv dd))) \<longrightarrow>
      (\<exists>st t. fetchRegisterData renv st0 = (Inr st, t) \<and> registerData st = mockData)) \<and>
   ((\<forall>req. \<exists>x. apiCall penv req = ARejects x) \<longrightarrow>
      fst (fetchAvailableDates penv snap ps) =
        Inr (ps\<lparr>isLoadingDates := False,
                 toasts := toasts ps @ [(js ''error'', String (js ''Failed to fetch available dates''))]\<rparr>) \<and>
      (truthy (selectedDate snap) \<longrightarrow>
         fst (fetchRecords penv snap ps) =
           Inr (ps\<lparr>pageIsLoading := False, records := Array [], totalRecords := Number (Num 0)\<rparr>) \<and>
         (\<exists>x. fst (handleScrape penv snap ps) =
            Inr (ps\<lparr>isScraping := False,
                     toasts := toasts ps @ [(js ''error'', scrapeFailureDetail x)]\<rparr>)))) \<and>
   (fetchSafetyFromBackend env dot = Inr None \<and> (\<forall>x. fetch env x = Rejects) \<longrightarrow>
      fst (fetchSafetyData env dot) = Inl (Error (js ''Could not fetch safety data'')))"
proof -
  have 7: "(\<forall>x. fetch env x = Rejects) \<longrightarrow>
      fst (fetchUrl env u useProxy) = Inr Null \<and>
      fst (fetchCarrierEmailFromSMS env d useProxy) = Inr [] \<and>
      (fetchCarrierFromBackend env mc = Inr None \<longrightarrow> fst (scrapeRealCarrier env mc useProxy) = Inr None)"
    by (simp add: fetchUrl_offline fetchCarrierEmailFromSMS_offline scrapeRealCarrier_offline)
  have 8: "(\<exists>x. sb (carriersQuery filters) = QRejects x) \<or>
    (\<exists>dd e. sb (carriersQuery filters) = QResolves dd e \<and> truthy e) \<longrightarrow>
      fst (fetchCarriersFromSupabase sb filters) = Inr []"
    by (auto simp: fetchCarriersFromSupabase_cases)
  have 9: "rejectsWithValue (supabaseClient renv) \<and>
    ((\<exists>x. supabaseClient renv registerQuery = QRejects x) \<or>
     (\<exists>dd e. supabaseClient renv registerQuery = QResolves dd e \<and> (truthy e \<or> \<not> hasEntries renv dd))) \<longrightarrow>
      (\<exists>st t. fetchRegisterData renv st0 = (Inr st, t) \<and> registerData st = mockData)"
  proof (intro impI)
    assume a: "rejectsWithValue (supabaseClient renv) \<and>
      ((\<exists>x. supabaseClient renv registerQuery = QRejects x) \<or>
       (\<exists>dd e. supabaseClient renv registerQuery = QResolves dd e \<and> (truthy e \<or> \<not> hasEntries renv dd)))"
    then consider
      (rejected) x where "supabaseClient renv registerQuery = QRejects x"
      | (answered) dd e where "supabaseClient renv registerQuery = QResolves dd e"
          "truthy e \<or> \<not> hasEntries renv dd"
      by blast
    then show "\<exists>st t. fetchRegisterData renv st0 = (Inr st, t) \<and> registerData st = mockData"
    proof cases
      case rejected
      from a have "message x = Inr (optChain (thrownValue x) ''message'')"
        using rejected by (intro message_value) (auto simp: rejectsWithValue_def)
      with rejected show ?thesis
        by (simp add: fetchRegisterData_cases failedState_mock)
    next
      case answered
      then show ?thesis
        by (auto simp: fetchRegisterData_cases failedState_mock)
    qed
  qed
  have 10: "fetchSafetyFromBackend env dot = Inr None \<and> (\<forall>x. fetch env x = Rejects) \<longrightarrow>
      fst (fetchSafetyData env dot) = Inl (Error (js ''Could not fetch safety data''))"
    by (auto intro!: fetchSafetyData_throws simp: fetchUrl_offline)
  have 11: "(\<forall>req. \<exists>x. apiCall penv req = ARejects x) \<longrightarrow>
      fst (fetchAvailableDates penv snap ps) =
        Inr (ps\<lparr>isLoadingDates := False,
                 toasts := toasts ps @ [(js ''error'', String (js ''Failed to fetch available dates''))]\<rparr>) \<and>
      (truthy (selectedDate snap) \<longrightarrow>
         fst (fetchRecords penv snap ps) =
           Inr (ps\<lparr>pageIsLoading := False, records := Array [], totalRecords := Number (Num 0)\<rparr>) \<and>
         (\<exists>x. fst (handleScrape penv snap ps) =
            Inr (ps\<lparr>isScraping := False,
                     toasts := toasts ps @ [(js ''error'', scrapeFailureDetail x)]\<rparr>)))"
  proof (intro impI conjI)
    assume a: "\<forall>req. \<exists>x. apiCall penv req = ARejects x"
    then obtain x where "apiCall penv (Request (js ''/api/v1/fmcsa/dates'') (js ''GET'') (Object [])) = ARejects x"
      by blast
    then show "fst (fetchAvailableDates penv snap ps) =
        Inr (ps\<lparr>isLoadingDates := False,
                 toasts := toasts ps @ [(js ''error'', String (js ''Failed to fetch available dates''))]\<rparr>)"
      by (rule fetchAvailableDates_failure)
    assume t: "truthy (selectedDate snap)"
    from a obtain y where
      "apiCall penv (Request (js ''/api/v1/fmcsa/records'') (js ''GET'') (recordsParams snap)) = ARejects y"
      by blast
    with t show "fst (fetchRecords penv snap ps) =
           Inr (ps\<lparr>pageIsLoading := False, records := Array [], totalRecords := Number (Num 0)\<rparr>)"
      by (rule fetchRecords_failure)
    from a obtain z where
      "apiCall penv (Request (js ''/api/v1/fmcsa/scrape'') (js ''POST'')
            (Object [(js ''pd_date'', selectedDate snap)])) = ARejects z"
      by blast
    with t have "fst (handleScrape penv snap ps) =
            Inr (ps\<lparr>isScraping := False,
                     toasts := toasts ps @ [(js ''error'', scrapeFailureDetail z)]\<rparr>)"
      by (rule handleScrape_failure)
    then show "\<exists>x. fst (handleScrape penv snap ps) =
            Inr (ps\<lparr>isScraping := False,
                     toasts := toasts ps @ [(js ''error'', scrapeFailureDetail x)]\<rparr>)"
      by blast
  qed
  from 7 8 9 10 11 show ?thesis
    using fetchUrl_returns [of env u useProxy] fetchCarrierEmailFromSMS_returns [of env d useProxy]
      scrapeRealCarrier_returns [of env mc b useProxy] fetchCarriersFromSupabase_returns [of sb filters]
      saveCarrierToSupabase_returns [of sb carrier] fetchRegisterData_returns [of renv st0]
      fetchAvailableDates_returns [of penv snap ps] fetchRecords_returns [of penv snap ps]
      handleScrape_returns [of penv snap ps]
    by (intro conjI) (assumption | blast)+
qed

theorem failures_absorbed_witness:
  "fst (fetchUrl env_offline (js ''example.com'') False) = Inr Null \<and>
   fst (fetchCarrierEmailFromSMS env_offline (js ''7654321'') False) = Inr [] \<and>
   fst (scrapeRealCarrier env_offline (js ''123456'') False) = Inr None \<and>
   fst (fetchCarriersFromSupabase sb_down noFilters) = Inr [] \<and>
   (\<exists>st t. fetchRegisterData renv_down initialState = (Inr st, t) \<and> registerData st = mockData) \<and>
   fst (fetchRecords penv_down datedPage datedPage) =
     Inr (datedPage\<lparr>pageIsLoading := False, records := Array [], totalRecords := Number (Num 0)\<rparr>) \<and>
   fst (fetchSafetyData env_offline (js ''7654321'')) = Inl (Error (js ''Could not fetch safety data''))"
proof -
  have a: "\<forall>x. fetch env_offline x = Rejects"
    and b: "fetchCarrierFromBackend env_offline (js ''123456'') = Inr None"
    and c: "fetchSafetyFromBackend env_offline (js ''7654321'') = Inr None"
    by (simp_all add: fixture_simps)
  have d: "\<exists>x. sb_down (carriersQuery noFilters) = QRejects x"
    and e: "\<exists>x. supabaseClient renv_down registerQuery = QRejects x"
    and h: "rejectsWithValue (supabaseClient renv_down)" "rejectsWithValue sb_down"
    by (simp_all add: sb_down_def renv_down_def rejectsWithValue_def)
  have f: "\<forall>req. \<exists>x. apiCall penv_down req = ARejects x"
    and g: "truthy (selectedDate datedPage)"
    by (simp_all add: penv_down_def datedPage_def)
  from failures_absorbed [where env = env_offline and u = "js ''example.com''" and useProxy = False
      and d = "js ''7654321''" and mc = "js ''123456''" and b = None and sb = sb_down
      and filters = noFilters and carrier = Null and renv = renv_down and ?st0.0 = initialState
      and penv = penv_down and snap = datedPage and ps = datedPage and dot = "js ''7654321''"]
    a b c d e f g h
  show ?thesis by simp
qed

section \<open>Defaults at the storage boundary\<close>

text \<open>
  Claim C6. For every carrier object, the record that \<^verbatim>\<open>saveCarrierToSupabase\<close> sends to
  the service holds null for each optional field that is absent or falsy and the empty
  array for each of the three list fields that is absent (or falsy); a field that is
  present keeps its value. \<^verbatim>\<open>fetchCarriersFromSupabase\<close> returns, for each row of the
  answer, an object whose three list fields are the empty array where the row has none.
\<close>

theorem optional_field_defaulting:
  "(carrier \<noteq> Undefined \<and> carrier \<noteq> Null \<longrightarrow>
      (\<exists>record. carrierRecord carrier = Inr record \<and>
         snd (saveCarrierToSupabase sb carrier) = [[From (js ''carriers''), Upsert record (js ''mc_number'')]] \<and>
         (\<forall>(c, s) \<in> set optionalFields.
            stored record s = Some (if truthy (readProp carrier c) then readProp carrier c else Null)) \<and>
         (\<forall>(c, s) \<in> set listFields.
            stored record s = Some (if truthy (readProp carrier c) then readProp carrier c else Array [])))) \<and>
   (row \<noteq> Undefined \<and> row \<noteq> Null \<longrightarrow>
      (\<exists>out. carrierFromRecord row = Inr out \<and>
         (\<forall>(c, s) \<in> set listFields.
            stored out c = Some (if truthy (readProp row s) then readProp row s else Array [])))) \<and>
   (sb (carriersQuery filters) = QResolves (Array rows) e \<and> \<not> truthy e \<and>
    (\<forall>r\<in>set rows. r \<noteq> Undefined \<and> r \<noteq> Null) \<longrightarrow>
      fst (fetchCarriersFromSupabase sb filters) = Inr (map (\<lambda>r. projr (carrierFromRecord r)) rows))"
proof (intro conjI impI)
  assume a: "carrier \<noteq> Undefined \<and> carrier \<noteq> Null"
  then obtain rcd where r: "carrierRecord carrier = Inr rcd"
    by (auto simp: carrierRecord_eq)
  from a r show "\<exists>record. carrierRecord carrier = Inr record \<and>
         snd (saveCarrierToSupabase sb carrier) = [[From (js ''carriers''), Upsert record (js ''mc_number'')]] \<and>
         (\<forall>(c, s) \<in> set optionalFields.
            stored record s = Some (if truthy (readProp carrier c) then readProp carrier c else Null)) \<and>
         (\<forall>(c, s) \<in> set listFields.
            stored record s = Some (if truthy (readProp carrier c) then readProp carrier c else Array []))"
    using carrierRecord_optional [of carrier rcd] carrierRecord_lists [of carrier rcd]
      saveCarrierToSupabase_trace [of carrier rcd sb]
    by blast
next
  assume a: "row \<noteq> Undefined \<and> row \<noteq> Null"
  then obtain out where r: "carrierFromRecord row = Inr out"
    using carrierFromRecord_returns by blast
  from a r show "\<exists>out. carrierFromRecord row = Inr out \<and>
         (\<forall>(c, s) \<in> set listFields.
            stored out c = Some (if truthy (readProp row s) then readProp row s else Array []))"
    using carrierFromRecord_lists [of row out] by blast
next
  assume "sb (carriersQuery filters) = QResolves (Array rows) e \<and> \<not> truthy e \<and>
    (\<forall>r\<in>set rows. r \<noteq> Undefined \<and> r \<noteq> Null)"
  then show "fst (fetchCarriersFromSupabase sb filters) = Inr (map (\<lambda>r. projr (carrierFromRecord r)) rows)"
    using fetchCarriers_rows [of sb filters rows e] by simp
qed

theorem optional_field_defaulting_witness:
  "stored (projr (carrierRecord sampleInput)) ''email'' = Some Null \<and>
   stored (projr (carrierRecord sampleInput)) ''dba_name'' = Some Null \<and>
   stored (projr (carrierRecord sampleInput)) ''carrier_operation'' = Some (Array []) \<and>
   stored (projr (carrierRecord sampleInput)) ''cargo_carried'' = Some (Array [String (js ''General Freight'')]) \<and>
   snd (saveCarrierToSupabase sb_down sampleInput) =
     [[From (js ''carriers''), Upsert (projr (carrierRecord sampleInput)) (js ''mc_number'')]] \<and>
   stored (projr (carrierFromRecord sampleRow)) ''cargoCarried'' = Some (Array []) \<and>
   fst (fetchCarriersFromSupabase sb_rows noFilters) = Inr [projr (carrierFromRecord sampleRow)]"
proof -
  have n: "sampleInput \<noteq> Undefined \<and> sampleInput \<noteq> Null" "sampleRow \<noteq> Undefined \<and> sampleRow \<noteq> Null"
    by (simp_all add: sampleInput_def sampleRow_def)
  have q: "sb_rows (carriersQuery noFilters) = QResolves (Array [sampleRow]) Null \<and> \<not> truthy Null \<and>
      (\<forall>r\<in>set [sampleRow]. r \<noteq> Undefined \<and> r \<noteq> Null)"
    using n by (simp add: sb_rows_def)
  have p: "readProp sampleInput ''email'' = String []" "readProp sampleInput ''dbaName'' = Undefined"
    "readProp sampleInput ''carrierOperation'' = Undefined"
    "readProp sampleInput ''cargoCarried'' = Array [String (js ''General Freight'')]"
    "readProp sampleRow ''cargo_carried'' = Null"
    by (simp_all add: readProp_def sampleInput_def sampleRow_def)
  have m: "(''email'', ''email'') \<in> set optionalFields" "(''dbaName'', ''dba_name'') \<in> set optionalFields"
    "(''carrierOperation'', ''carrier_operation'') \<in> set listFields"
    "(''cargoCarried'', ''cargo_carried'') \<in> set listFields"
    by (simp_all add: optionalFields_def listFields_def)
  note A = optional_field_defaulting [where carrier = sampleInput and sb = sb_down,
      THEN conjunct1, THEN mp, OF n(1)]
  note B = optional_field_defaulting [where row = sampleRow,
      THEN conjunct2, THEN conjunct1, THEN mp, OF n(2)]
  note C = optional_field_defaulting [where sb = sb_rows and filters = noFilters
      and rows = "[sampleRow]" and e = Null, THEN conjunct2, THEN conjunct2, THEN mp, OF q]
  from A obtain rcd where
    r: "carrierRecord sampleInput = Inr rcd"
    and t: "snd (saveCarrierToSupabase sb_down sampleInput) = [[From (js ''carriers''), Upsert rcd (js ''mc_number'')]]"
    and o: "\<forall>(c, s) \<in> set optionalFields.
            stored rcd s = Some (if truthy (readProp sampleInput c) then readProp sampleInput c else Null)"
    and l: "\<forall>(c, s) \<in> set listFields.
            stored rcd s = Some (if truthy (readProp sampleInput c) then readProp sampleInput c else Array [])"
    by (elim exE conjE)
  from B obtain out where
    r': "carrierFromRecord sampleRow = Inr out"
    and l': "\<forall>(c, s) \<in> set listFields.
            stored out c = Some (if truthy (readProp sampleRow s) then readProp sampleRow s else Array [])"
    by (elim exE conjE)
  have 1: "stored rcd ''email'' = Some Null" using bspec [OF o m(1)] by (simp add: p)
  have 2: "stored rcd ''dba_name'' = Some Null" using bspec [OF o m(2)] by (simp add: p)
  have 3: "stored rcd ''carrier_operation'' = Some (Array [])" using bspec [OF l m(3)] by (simp add: p)
  have 4: "stored rcd ''cargo_carried'' = Some (Array [String (js ''General Freight'')])"
    using bspec [OF l m(4)] by (simp add: p)
  have 5: "stored out ''cargoCarried'' = Some (Array [])" using bspec [OF l' m(4)] by (simp add: p)
  from 1 2 3 4 5 t C show ?thesis by (simp add: r r')
qed

section \<open>Order and limit of the carrier query\<close>

text \<open>
  Claim C10, as stated, fails when \<^verbatim>\<open>filters.limit\<close> is set to 0: the guard
  \<^verbatim>\<open>if (filters.limit)\<close> takes 0 for unset, the query asks for 200 rows, and a row comes
  back where the limit given was 0.
\<close>

theorem carriersQuery_limit_zero_counterexample:
  "carriersQuery zeroLimit =
     [From (js ''carriers''), Select (js ''*''), Order (js ''created_at'') False, Limit (Num 200)] \<and>
   length (projr (fst (fetchCarriersFromSupabase sb_rows zeroLimit))) = 1"
proof -
  have n: "sampleRow \<noteq> Undefined" "sampleRow \<noteq> Null" by (simp_all add: sampleRow_def)
  have "fetchCarriersFromSupabase sb_rows zeroLimit =
      (Inr (map (\<lambda>r. projr (carrierFromRecord r)) [sampleRow]), [carriersQuery zeroLimit])"
    by (rule fetchCarriers_rows [where e = Null]) (simp_all add: sb_rows_def n)
  then show ?thesis
    by (simp add: carriersQuery_def zeroLimit_def noFilters_def given_def givenNumber_def)
qed

text \<open>
  Claim C10, amended. The one query that \<^verbatim>\<open>fetchCarriersFromSupabase\<close> sends ends with the
  order by \<^verbatim>\<open>created_at\<close> descending and then the limit, which is \<^verbatim>\<open>filters.limit\<close> when
  that is a number other than 0 and NaN, and 200 otherwise. The list returned is no longer
  than the rows of the answer, so it is within the limit whenever the service keeps to it.
\<close>

theorem carriersQuery_order_limit:
  "(\<exists>pre. carriersQuery filters =
      pre @ [Order (js ''created_at'') False,
             Limit (case limit filters of
                      Some (Num n) \<Rightarrow> if n \<noteq> 0 then Num n else Num 200
                    | _ \<Rightarrow> Num 200)]) \<and>
   (\<exists>result. fetchCarriersFromSupabase sb filters = (Inr result, [carriersQuery filters]) \<and>
      ((\<forall>rows e. sb (carriersQuery filters) = QResolves (Array rows) e \<longrightarrow> int (length rows) \<le> k)
         \<longrightarrow> int (length result) \<le> max 0 k))"
proof
  obtain pre where "carriersQuery filters =
     pre @ [Order (js ''created_at'') False,
            Limit (if givenNumber (limit filters) then the (limit filters) else Num 200)]"
    using carriersQuery_split by blast
  moreover have "(if givenNumber (limit filters) then the (limit filters) else Num 200) =
      (case limit filters of
         Some (Num n) \<Rightarrow> if n \<noteq> 0 then Num n else Num 200
       | _ \<Rightarrow> Num 200)"
    by (simp add: givenNumber_def split: option.splits jsnum.splits)
  ultimately show "\<exists>pre. carriersQuery filters =
      pre @ [Order (js ''created_at'') False,
             Limit (case limit filters of
                      Some (Num n) \<Rightarrow> if n \<noteq> 0 then Num n else Num 200
                    | _ \<Rightarrow> Num 200)]"
    by auto
next
  obtain result t where f: "fetchCarriersFromSupabase sb filters = (Inr result, t)"
    using fetchCarriersFromSupabase_returns by blast
  then have t: "t = [carriersQuery filters]"
    by (auto simp: fetchCarriersFromSupabase_cases split: query_result.splits if_splits sum.splits)
  show "\<exists>result. fetchCarriersFromSupabase sb filters = (Inr result, [carriersQuery filters]) \<and>
      ((\<forall>rows e. sb (carriersQuery filters) = QResolves (Array rows) e \<longrightarrow> int (length rows) \<le> k)
         \<longrightarrow> int (length result) \<le> max 0 k)"
    using f t fetchCarriers_length [of sb filters result t k] by blast
qed

theorem carriersQuery_order_limit_witness:
  "carriersQuery fiveLimit =
     [From (js ''carriers''), Select (js ''*'')] @ [Order (js ''created_at'') False, Limit (Num 5)] \<and>
   carriersQuery noFilters =
     [From (js ''carriers''), Select (js ''*'')] @ [Order (js ''created_at'') False, Limit (Num 200)] \<and>
   (\<exists>result. fetchCarriersFromSupabase sb_rows fiveLimit = (Inr result, [carriersQuery fiveLimit]) \<and>
      int (length result) \<le> 5)"
proof -
  have q: "carriersQuery fiveLimit =
     [From (js ''carriers''), Select (js ''*'')] @ [Order (js ''created_at'') False, Limit (Num 5)]"
    "carriersQuery noFilters =
     [From (js ''carriers''), Select (js ''*'')] @ [Order (js ''created_at'') False, Limit (Num 200)]"
    using carriersQuery_order_limit [of fiveLimit sb_rows 5, THEN conjunct1]
      carriersQuery_order_limit [of noFilters sb_rows 200, THEN conjunct1]
    by (simp_all add: carriersQuery_def fiveLimit_def noFilters_def given_def givenNumber_def)
  have h: "\<forall>rows e. sb_rows (carriersQuery fiveLimit) = QResolves (Array rows) e \<longrightarrow> int (length rows) \<le> 5"
    by (simp add: sb_rows_def)
  from carriersQuery_order_limit [of fiveLimit sb_rows 5, THEN conjunct2] h
  have "\<exists>result. fetchCarriersFromSupabase sb_rows fiveLimit = (Inr result, [carriersQuery fiveLimit]) \<and>
      int (length result) \<le> 5"
    by auto
  with q show ?thesis by simp
qed

end
